theory Spec2Isabelle
  imports Complex_Main "HOL-Library.Sublist"
begin

section \<open>Transcript reconstruction (get\_transcript.py, format\_entries\_as\_text)\<close>

text \<open>
  A raw transcript entry as the Meet API delivers it. Both fields are protobuf strings:
  an absent participant label or text is the empty string.
\<close>

record transcript_entry =
  participant :: string
  entry_text :: string

text \<open>Python's \<^verbatim>\<open>x or default\<close> on strings: the empty string is falsy.\<close>

definition py_or :: "string \<Rightarrow> string \<Rightarrow> string" where
  "py_or x d = (if x = [] then d else x)"

text \<open>\<^verbatim>\<open>sep.join(xs)\<close>.\<close>

fun join :: "string \<Rightarrow> string list \<Rightarrow> string" where
  "join sep [] = []"
| "join sep [x] = x"
| "join sep (x # y # ys) = x @ sep @ join sep (y # ys)"

text \<open>
  The f-string \<^verbatim>\<open>f"{current_speaker}: {' '.join(current_text)}"\<close>. The variable
  \<^verbatim>\<open>current_speaker\<close> starts as \<^verbatim>\<open>None\<close>, which an f-string prints as
  the four letters None.
\<close>

definition speaker_line :: "string option \<Rightarrow> string list \<Rightarrow> string" where
  "speaker_line current_speaker current_text =
     (case current_speaker of None \<Rightarrow> ''None'' | Some s \<Rightarrow> s) @ '': '' @ join '' '' current_text"

text \<open>
  The \<^verbatim>\<open>for entry in entries\<close> loop, with its three mutable variables
  \<^verbatim>\<open>lines\<close>, \<^verbatim>\<open>current_speaker\<close> and \<^verbatim>\<open>current_text\<close> passed along.
\<close>

fun entries_loop ::
  "transcript_entry list \<Rightarrow> string list \<Rightarrow> string option \<Rightarrow> string list
     \<Rightarrow> string list \<times> string option \<times> string list" where
  "entries_loop [] lines current_speaker current_text = (lines, current_speaker, current_text)"
| "entries_loop (entry # rest) lines current_speaker current_text =
     (let speaker = py_or (participant entry) ''Unknown'';
          txt = py_or (entry_text entry) ''''
      in if Some speaker \<noteq> current_speaker
         then entries_loop rest
                (if current_text \<noteq> [] then lines @ [speaker_line current_speaker current_text]
                 else lines)
                (Some speaker) [txt]
         else entries_loop rest lines current_speaker (current_text @ [txt]))"

definition format_entries_as_text :: "transcript_entry list \<Rightarrow> string" where
  "format_entries_as_text entries =
     (if entries = [] then ''''
      else (case entries_loop entries [] None [] of
              (lines, current_speaker, current_text) \<Rightarrow>
                join [CHR 0x0A, CHR 0x0A]
                  (if current_text \<noteq> [] then lines @ [speaker_line current_speaker current_text]
                   else lines)))"

subsection \<open>The reconstruction as the specification words it\<close>

text \<open>
  An entry's speaker: its participant label, or the literal Unknown when it has none.
\<close>

definition spec_speaker :: "transcript_entry \<Rightarrow> string" where
  "spec_speaker e = (if participant e = [] then ''Unknown'' else participant e)"

text \<open>
  Consecutive entries of one speaker form one group: the speaker and the texts in order.
\<close>

fun spec_groups :: "transcript_entry list \<Rightarrow> (string \<times> string list) list" where
  "spec_groups [] = []"
| "spec_groups (e # es) =
     (case spec_groups es of
        [] \<Rightarrow> [(spec_speaker e, [entry_text e])]
      | (s, ts) # gs \<Rightarrow>
          if spec_speaker e = s then (s, entry_text e # ts) # gs
          else (spec_speaker e, [entry_text e]) # (s, ts) # gs)"

definition spec_paragraph :: "string \<times> string list \<Rightarrow> string" where
  "spec_paragraph g = fst g @ '': '' @ join '' '' (snd g)"

definition spec_reconstruct :: "transcript_entry list \<Rightarrow> string" where
  "spec_reconstruct entries = join [CHR 0x0A, CHR 0x0A] (map spec_paragraph (spec_groups entries))"

subsection \<open>Auxiliary notions for the reconstruction proof\<close>

text \<open>
  The paragraphs a loop state stands for once its pending speaker is flushed, and the
  effect of a pending group \<open>(s, ct)\<close> on the groups of the entries still to come.
\<close>

definition flush :: "string list \<times> string option \<times> string list \<Rightarrow> string list" where
  "flush r = (case r of (lines, cs, ct) \<Rightarrow> if ct \<noteq> [] then lines @ [speaker_line cs ct] else lines)"

fun absorb ::
  "string \<times> string list \<Rightarrow> (string \<times> string list) list \<Rightarrow> (string \<times> string list) list" where
  "absorb (s, ct) [] = [(s, ct)]"
| "absorb (s, ct) ((s', ts) # gs) = (if s = s' then (s, ct @ ts) # gs else (s, ct) # (s', ts) # gs)"

section \<open>Exceptions and the retry executor (retry\_with\_backoff)\<close>

text \<open>
  The exception classes the two scripts raise, catch or let pass. \<open>HttpError\<close> carries
  the HTTP status of googleapiclient's error (\<^verbatim>\<open>e.resp.status\<close>); the exceptions of
  the requests library are prefixed, since Python's builtin \<open>TimeoutError\<close> and
  \<open>ConnectionError\<close> are different classes. Exception messages are not modelled.
\<close>

datatype exn =
    ServiceUnavailable | DeadlineExceeded | ResourceExhausted | NotFound | PermissionDenied
  | HttpError nat
  | RequestsTimeout | RequestsConnectionError | RequestsHTTPError nat
  | PermissionError | FileNotFoundError | TimeoutError | ConnectionError
  | RefreshError | ValueError | TypeError | AttributeError | IndexError
  | OtherError string

text \<open>What a call does: it returns a value or raises.\<close>

datatype 'a outcome = Returns 'a | Raises exn

definition MAX_RETRIES :: int where
  "MAX_RETRIES = 3"

definition RETRY_BASE_DELAY_SECONDS :: rat where
  "RETRY_BASE_DELAY_SECONDS = 1"

text \<open>
  The default \<^verbatim>\<open>retryable_exceptions\<close> tuples (\<^verbatim>\<open>isinstance\<close> against the tuple):
  get\_transcript.py lists two classes, get\_smart\_notes.py adds the two of requests.
\<close>

definition transcript_retryable_exceptions :: "exn \<Rightarrow> bool" where
  "transcript_retryable_exceptions e = (e = ServiceUnavailable \<or> e = DeadlineExceeded)"

definition notes_retryable_exceptions :: "exn \<Rightarrow> bool" where
  "notes_retryable_exceptions e =
     (e = ServiceUnavailable \<or> e = DeadlineExceeded \<or> e = RequestsTimeout \<or> e = RequestsConnectionError)"

text \<open>
  The body of \<^verbatim>\<open>wrapper\<close>: the loop \<^verbatim>\<open>for attempt in range(max_retries + 1)\<close>
  over the attempts still to make. The wrapped function works on a state \<open>'s\<close> (whatever
  it talks to); it may fail to return (\<open>None\<close>), and then so does the wrapper. Besides
  the outcome and the state the loop reports how often it invoked \<open>func\<close> and the
  delays it slept (\<^verbatim>\<open>time.sleep(delay)\<close>), in order. The delay
  \<^verbatim>\<open>base_delay * (2 ** attempt)\<close> is a float in the source and an exact rational
  here. The three \<^verbatim>\<open>except\<close> clauses are tried in the source's order; an exception
  that none of them catches propagates. \<^verbatim>\<open>raise last_exception\<close> with
  \<^verbatim>\<open>last_exception = None\<close> is a TypeError in Python.
\<close>

fun wrapper_loop ::
  "int \<Rightarrow> rat \<Rightarrow> (exn \<Rightarrow> bool) \<Rightarrow> ('s \<Rightarrow> ('a outcome \<times> 's) option)
     \<Rightarrow> int list \<Rightarrow> exn option \<Rightarrow> 's \<Rightarrow> nat \<Rightarrow> rat list
     \<Rightarrow> ('a outcome \<times> 's \<times> nat \<times> rat list) option" where
  "wrapper_loop max_retries base_delay retryable_exceptions func [] last_exception s calls sleeps =
     Some (Raises (case last_exception of None \<Rightarrow> TypeError | Some e \<Rightarrow> e), s, calls, sleeps)"
| "wrapper_loop max_retries base_delay retryable_exceptions func (attempt # rest) last_exception s calls sleeps =
     (case func s of
        None \<Rightarrow> None
      | Some (Returns v, s') \<Rightarrow> Some (Returns v, s', Suc calls, sleeps)
      | Some (Raises e, s') \<Rightarrow>
          (let sleeps' = (if attempt < max_retries
                          then sleeps @ [base_delay * 2 ^ nat attempt] else sleeps)
           in if retryable_exceptions e
              then wrapper_loop max_retries base_delay retryable_exceptions func rest (Some e) s'
                     (Suc calls) sleeps'
              else if e = ResourceExhausted
              then wrapper_loop max_retries base_delay retryable_exceptions func rest (Some e) s'
                     (Suc calls) sleeps'
              else (case e of
                      HttpError status \<Rightarrow>
                        if status = 429
                        then wrapper_loop max_retries base_delay retryable_exceptions func rest
                               (Some e) s' (Suc calls) sleeps'
                        else Some (Raises e, s', Suc calls, sleeps)
                    | _ \<Rightarrow> Some (Raises e, s', Suc calls, sleeps))))"

definition retry_with_backoff ::
  "int \<Rightarrow> rat \<Rightarrow> (exn \<Rightarrow> bool) \<Rightarrow> ('s \<Rightarrow> ('a outcome \<times> 's) option)
     \<Rightarrow> 's \<Rightarrow> ('a outcome \<times> 's \<times> nat \<times> rat list) option" where
  "retry_with_backoff max_retries base_delay retryable_exceptions func s =
     wrapper_loop max_retries base_delay retryable_exceptions func [0..max_retries] None s 0 []"

text \<open>
  A retryable failure, as the three \<^verbatim>\<open>except\<close> clauses together define it: an
  instance of the retryable classes, a \<open>ResourceExhausted\<close>, or an \<open>HttpError\<close> with
  status 429.
\<close>

definition retryable_failure :: "(exn \<Rightarrow> bool) \<Rightarrow> exn \<Rightarrow> bool" where
  "retryable_failure retryable_exceptions e =
     (retryable_exceptions e \<or> e = ResourceExhausted \<or> e = HttpError 429)"

section \<open>The remote services\<close>

text \<open>
  A Python \<^verbatim>\<open>datetime\<close>: naive (wall-clock fields only) or timezone-aware. Both are
  counted in microseconds since 1970-01-01T00:00:00, a naive one as its fields read, an
  aware one as its UTC instant:
  comparing and subtracting two aware datetimes goes by the instant whatever their offsets.
  The year range of Python's datetime is not modelled.
\<close>

datatype datetime = Naive int | Aware int

text \<open>\<^verbatim>\<open>dt.tzinfo is None\<close> and \<^verbatim>\<open>dt.replace(tzinfo=timezone.utc)\<close>.\<close>

fun tzinfo_is_None :: "datetime \<Rightarrow> bool" where
  "tzinfo_is_None (Naive w) = True"
| "tzinfo_is_None (Aware u) = False"

fun replace_tzinfo_utc :: "datetime \<Rightarrow> datetime" where
  "replace_tzinfo_utc (Naive w) = Aware w"
| "replace_tzinfo_utc (Aware u) = Aware u"

text \<open>
  \<^verbatim>\<open>a <= b\<close> and \<^verbatim>\<open>a - b\<close> on datetimes: Python raises TypeError when one is
  naive and the other aware. The difference is a timedelta, in microseconds.
\<close>

fun datetime_le :: "datetime \<Rightarrow> datetime \<Rightarrow> exn + bool" where
  "datetime_le (Aware a) (Aware b) = Inr (a \<le> b)"
| "datetime_le (Naive a) (Naive b) = Inr (a \<le> b)"
| "datetime_le _ _ = Inl TypeError"

fun datetime_sub :: "datetime \<Rightarrow> datetime \<Rightarrow> exn + int" where
  "datetime_sub (Aware a) (Aware b) = Inr (a - b)"
| "datetime_sub (Naive a) (Naive b) = Inr (a - b)"
| "datetime_sub _ _ = Inl TypeError"

text \<open>
  \<^verbatim>\<open>timedelta.total_seconds()\<close>: the microseconds divided by \<open>10\<^sup>6\<close>. The source's
  float is an exact rational here; the division is monotone, and injective on the
  microsecond counts of any window shorter than about 136 years.
\<close>

definition total_seconds :: "int \<Rightarrow> rat" where
  "total_seconds microseconds = of_int microseconds / 1000000"

definition timedelta_hours :: "int \<Rightarrow> int" where
  "timedelta_hours h = h * 3600 * 1000000"

definition DEFAULT_TIME_WINDOW_HOURS :: int where
  "DEFAULT_TIME_WINDOW_HOURS = 4"

text \<open>
  The API objects, with the fields the scripts read. A message the API lists is taken to be
  truthy (it carries at least its resource name); an unset timestamp is \<open>None\<close>.
\<close>

record conference_record =
  record_name :: string
  start_time :: "datetime option"
  end_time :: "datetime option"

datatype transcript_state = STATE_UNSPECIFIED | STARTED | ENDED | FILE_GENERATED | UnknownState nat

record docs_destination =
  document :: string
  export_uri :: string

record transcript =
  transcript_name :: string
  state :: transcript_state
  docs_dest :: "docs_destination option"

record entries_page =
  transcript_entries :: "transcript_entry list"
  next_page_token :: string

text \<open>
  The JSON of the v2beta smartNotes endpoint, as far as get\_smart\_notes.py reads it: the
  keys \<open>error\<close> (an object with an optional \<open>message\<close> in Google's error bodies, a
  plain string in the dictionaries the script builds itself), \<open>message\<close> and
  \<open>smartNotes\<close>, each of which may be absent.
\<close>

record docs_json =
  dj_document :: "string option"
  dj_exportUri :: "string option"

record smart_note =
  note_state :: "string option"
  docsDestination :: "docs_json option"

datatype json_error = ErrorString string | ErrorObject "string option"

record notes_dict =
  d_error :: "json_error option"
  d_message :: "string option"
  d_smartNotes :: "smart_note list option"

text \<open>
  An HTTP response of \<^verbatim>\<open>requests.get\<close>: status, the parsed body (\<open>None\<close> when
  \<^verbatim>\<open>response.json()\<close> would raise) and the raw text.
\<close>

record http_response =
  status_code :: nat
  json_body :: "notes_dict option"
  response_text :: string

text \<open>
  Every call that leaves the process is recorded, in order, in a history. The services are
  a parameter: each endpoint answers a request with an outcome that may depend on
  everything asked before, which covers any sequence of answers a run can meet.
\<close>

datatype request =
    GetCredentials
  | RefreshCredentials
  | ListConferenceRecords string
  | ListTranscripts string
  | FilesExport string
  | ListTranscriptEntries string "string option"
  | GetSmartNotes string

type_synonym history = "request list"

record remote =
  get_credentials :: "history \<Rightarrow> unit outcome"
  credentials_expired :: "history \<Rightarrow> bool"
  credentials_refresh :: "history \<Rightarrow> unit outcome"
  list_conference_records :: "history \<Rightarrow> string \<Rightarrow> conference_record list outcome"
  list_transcripts :: "history \<Rightarrow> string \<Rightarrow> transcript list outcome"
  files_export :: "history \<Rightarrow> string \<Rightarrow> string outcome"
  list_transcript_entries :: "history \<Rightarrow> string \<Rightarrow> string option \<Rightarrow> entries_page outcome"
  requests_get :: "history \<Rightarrow> string \<Rightarrow> http_response outcome"

section \<open>The session resolver (find\_conference\_record)\<close>

text \<open>
  The filter strings of the two scripts: get\_transcript.py writes the equality sign without
  spaces, get\_smart\_notes.py with a space on each side.
\<close>

definition transcript_filter_str :: "string \<Rightarrow> string" where
  "transcript_filter_str meeting_code = ''space.meeting_code='' @ [CHR 0x22] @ meeting_code @ [CHR 0x22]"

definition notes_filter_str :: "string \<Rightarrow> string" where
  "notes_filter_str meeting_code = ''space.meeting_code = '' @ [CHR 0x22] @ meeting_code @ [CHR 0x22]"

text \<open>
  The loop \<^verbatim>\<open>for record in records\<close> that fills \<^verbatim>\<open>matching_records\<close>. The chained
  comparison \<^verbatim>\<open>after <= record_start <= before\<close> evaluates its second half only when
  the first holds.
\<close>

fun matching_loop ::
  "conference_record list \<Rightarrow> datetime \<Rightarrow> datetime \<Rightarrow> conference_record list
     \<Rightarrow> exn + conference_record list" where
  "matching_loop [] after before matching_records = Inr matching_records"
| "matching_loop (record # rest) after before matching_records =
     (case start_time record of
        None \<Rightarrow> matching_loop rest after before matching_records
      | Some st \<Rightarrow>
          (let record_start = (if tzinfo_is_None st then replace_tzinfo_utc st else st)
           in case datetime_le after record_start of
                Inl e \<Rightarrow> Inl e
              | Inr False \<Rightarrow> matching_loop rest after before matching_records
              | Inr True \<Rightarrow>
                  (case datetime_le record_start before of
                     Inl e \<Rightarrow> Inl e
                   | Inr False \<Rightarrow> matching_loop rest after before matching_records
                   | Inr True \<Rightarrow> matching_loop rest after before (matching_records @ [record]))))"

text \<open>
  The sort key \<^verbatim>\<open>lambda r: abs((r.start_time - after).total_seconds())\<close>. It subtracts
  the record's own \<^verbatim>\<open>start_time\<close>, not the normalised copy the loop compared.
\<close>

definition closest_key :: "datetime \<Rightarrow> conference_record \<Rightarrow> exn + rat" where
  "closest_key after r =
     (case start_time r of
        None \<Rightarrow> Inl TypeError
      | Some st \<Rightarrow>
          (case datetime_sub st after of
             Inl e \<Rightarrow> Inl e
           | Inr td \<Rightarrow> Inr (\<bar>total_seconds td\<bar>)))"

text \<open>
  \<^verbatim>\<open>list.sort(key=...)\<close>: the key of every element is computed first, in order (the
  first failure is raised), then the elements are sorted by key, stably. A stable sort's
  result is determined by the keys, so the library's stable insertion sort stands for
  Python's.
\<close>

fun decorate :: "('a \<Rightarrow> exn + rat) \<Rightarrow> 'a list \<Rightarrow> exn + (rat \<times> 'a) list" where
  "decorate keyfunc [] = Inr []"
| "decorate keyfunc (x # xs) =
     (case keyfunc x of
        Inl e \<Rightarrow> Inl e
      | Inr k \<Rightarrow> (case decorate keyfunc xs of Inl e \<Rightarrow> Inl e | Inr ks \<Rightarrow> Inr ((k, x) # ks)))"

definition list_sort :: "('a \<Rightarrow> exn + rat) \<Rightarrow> 'a list \<Rightarrow> exn + 'a list" where
  "list_sort keyfunc xs =
     (case decorate keyfunc xs of Inl e \<Rightarrow> Inl e | Inr ks \<Rightarrow> Inr (map snd (sort_key fst ks)))"

text \<open>
  What \<^verbatim>\<open>find_conference_record\<close> makes of the answer to its query: everything from
  the \<^verbatim>\<open>except\<close> clauses of the call to the final \<^verbatim>\<open>return\<close>.
\<close>

definition find_conference_record_result ::
  "conference_record list outcome \<Rightarrow> datetime \<Rightarrow> datetime \<Rightarrow> conference_record option outcome" where
  "find_conference_record_result answer after before =
     (case answer of
        Raises e \<Rightarrow>
          (if e = NotFound then Returns None
           else if e = PermissionDenied then Raises PermissionError
           else Raises e)
      | Returns records \<Rightarrow>
          if records = [] then Returns None
          else (case matching_loop records after before [] of
                  Inl e \<Rightarrow> Raises e
                | Inr matching_records \<Rightarrow>
                    if matching_records = [] then Returns None
                    else (case list_sort (closest_key after) matching_records of
                            Inl e \<Rightarrow> Raises e
                          | Inr sorted_records \<Rightarrow>
                              (case sorted_records of
                                 [] \<Rightarrow> Raises IndexError
                               | r # _ \<Rightarrow> Returns (Some r)))))"

text \<open>The undecorated function: one query, recorded in the history, and its evaluation.\<close>

definition find_conference_record_body ::
  "remote \<Rightarrow> string \<Rightarrow> datetime \<Rightarrow> datetime \<Rightarrow> history
     \<Rightarrow> conference_record option outcome \<times> history" where
  "find_conference_record_body client filter_str after before s =
     (find_conference_record_result (list_conference_records client s filter_str) after before,
      s @ [ListConferenceRecords filter_str])"

text \<open>The decorated functions of the two scripts (\<^verbatim>\<open>@retry_with_backoff()\<close>).\<close>

definition find_conference_record ::
  "remote \<Rightarrow> string \<Rightarrow> datetime \<Rightarrow> datetime \<Rightarrow> history
     \<Rightarrow> (conference_record option outcome \<times> history \<times> nat \<times> rat list) option" where
  "find_conference_record client meeting_code after before =
     retry_with_backoff MAX_RETRIES RETRY_BASE_DELAY_SECONDS transcript_retryable_exceptions
       (\<lambda>s. Some (find_conference_record_body client (transcript_filter_str meeting_code) after before s))"

definition notes_find_conference_record ::
  "remote \<Rightarrow> string \<Rightarrow> datetime \<Rightarrow> datetime \<Rightarrow> history
     \<Rightarrow> (conference_record option outcome \<times> history \<times> nat \<times> rat list) option" where
  "notes_find_conference_record client meeting_code after before =
     retry_with_backoff MAX_RETRIES RETRY_BASE_DELAY_SECONDS notes_retryable_exceptions
       (\<lambda>s. Some (find_conference_record_body client (notes_filter_str meeting_code) after before s))"

subsection \<open>The resolver's selection as the specification words it\<close>

text \<open>A timestamp normalised to UTC: a naive one is read as UTC.\<close>

fun utc_instant :: "datetime \<Rightarrow> int" where
  "utc_instant (Naive w) = w"
| "utc_instant (Aware u) = u"

text \<open>The session started within the window, bounds included.\<close>

definition in_window :: "int \<Rightarrow> int \<Rightarrow> conference_record \<Rightarrow> bool" where
  "in_window a b r = (case start_time r of None \<Rightarrow> False
                      | Some st \<Rightarrow> a \<le> utc_instant st \<and> utc_instant st \<le> b)"


section \<open>The text normaliser (strip\_speaker\_labels)\<close>

text \<open>
  \<^verbatim>\<open>s.split(sep)\<close> for a separator of one character: the pieces between the
  separators, the empty ones included; always at least one piece.
\<close>

fun split_on :: "char \<Rightarrow> string \<Rightarrow> string list" where
  "split_on sep [] = [[]]"
| "split_on sep (c # cs) =
     (if c = sep then [] # split_on sep cs
      else (case split_on sep cs of [] \<Rightarrow> [[c]] | w # ws \<Rightarrow> (c # w) # ws))"

text \<open>
  The character classes of the pattern. A character is a code point below 256 here. In a
  \<open>str\<close> pattern \<^verbatim>\<open>\s\<close> matches Unicode whitespace, which below 256 is tab to
  carriage return, the four separators \<open>0x1C\<close> to \<open>0x1F\<close>, the space, \<open>0x85\<close> and
  \<open>0xA0\<close>; \<^verbatim>\<open>\d\<close> matches a decimal digit, below 256 only \<open>0\<close> to \<open>9\<close>.
\<close>

definition is_space :: "char \<Rightarrow> bool" where
  "is_space c = (let n = (of_char c :: nat)
                 in (9 \<le> n \<and> n \<le> 13) \<or> (28 \<le> n \<and> n \<le> 32) \<or> n = 133 \<or> n = 160)"

definition is_digit :: "char \<Rightarrow> bool" where
  "is_digit c = (let n = (of_char c :: nat) in 48 \<le> n \<and> n \<le> 57)"

definition is_upper :: "char \<Rightarrow> bool" where
  "is_upper c = (let n = (of_char c :: nat) in 65 \<le> n \<and> n \<le> 90)"

definition is_alpha :: "char \<Rightarrow> bool" where
  "is_alpha c = (let n = (of_char c :: nat) in (65 \<le> n \<and> n \<le> 90) \<or> (97 \<le> n \<and> n \<le> 122))"

text \<open>
  Regular expressions as far as the pattern needs them: a character of a class, a
  sequence, an ordered alternative, a greedy option, and the greedy repetitions \<open>*\<close> and
  \<open>+\<close> of a character class.
\<close>

datatype regex =
    Eps
  | Atom "char \<Rightarrow> bool"
  | Seq regex regex
  | Alt regex regex
  | Opt regex
  | Star "char \<Rightarrow> bool"
  | Plus "char \<Rightarrow> bool"

text \<open>
  Matching as Python's \<open>re\<close> does it, by backtracking: \<open>k\<close> is what remains to be
  matched after the expression. An alternative tries its left side first, an option and a
  repetition try to take as much as they can first and give back when the rest fails.
\<close>

fun star_greedy :: "(char \<Rightarrow> bool) \<Rightarrow> string \<Rightarrow> (string \<Rightarrow> 'r option) \<Rightarrow> 'r option" where
  "star_greedy p [] k = k []"
| "star_greedy p (c # cs) k =
     (if p c then (case star_greedy p cs k of Some x \<Rightarrow> Some x | None \<Rightarrow> k (c # cs))
      else k (c # cs))"

fun rmatch :: "regex \<Rightarrow> string \<Rightarrow> (string \<Rightarrow> 'r option) \<Rightarrow> 'r option" where
  "rmatch Eps s k = k s"
| "rmatch (Atom p) s k = (case s of [] \<Rightarrow> None | c # cs \<Rightarrow> if p c then k cs else None)"
| "rmatch (Seq r1 r2) s k = rmatch r1 s (\<lambda>s'. rmatch r2 s' k)"
| "rmatch (Alt r1 r2) s k = (case rmatch r1 s k of Some x \<Rightarrow> Some x | None \<Rightarrow> rmatch r2 s k)"
| "rmatch (Opt r) s k = (case rmatch r s k of Some x \<Rightarrow> Some x | None \<Rightarrow> k s)"
| "rmatch (Star p) s k = star_greedy p s k"
| "rmatch (Plus p) s k = (case s of [] \<Rightarrow> None | c # cs \<Rightarrow> if p c then star_greedy p cs k else None)"

fun lit :: "string \<Rightarrow> regex" where
  "lit [] = Eps"
| "lit (c # cs) = Seq (Atom (\<lambda>x. x = c)) (lit cs)"

text \<open>
  The label part of the pattern,
  \<^verbatim>\<open>(?:Speaker\s+\d+|[A-Z][a-zA-Z]*(?:\s+[A-Z]\.?)?(?:\s+[A-Z][a-zA-Z]*)?)\<close>,
  and the whole pattern, the label followed by \<^verbatim>\<open>:\s*\<close>.
\<close>

definition label_pattern :: regex where
  "label_pattern =
     Alt (Seq (lit ''Speaker'') (Seq (Plus is_space) (Plus is_digit)))
         (Seq (Atom is_upper)
           (Seq (Star is_alpha)
             (Seq (Opt (Seq (Plus is_space) (Seq (Atom is_upper) (Opt (Atom (\<lambda>c. c = CHR ''.''))))))
                  (Opt (Seq (Plus is_space) (Seq (Atom is_upper) (Star is_alpha)))))))"

definition speaker_pattern :: regex where
  "speaker_pattern = Seq label_pattern (Seq (Atom (\<lambda>c. c = CHR '':'')) (Star is_space))"

text \<open>
  \<^verbatim>\<open>speaker_pattern.sub("", line)\<close> on one line. The pattern starts with \<^verbatim>\<open>^\<close>,
  which under \<^verbatim>\<open>re.MULTILINE\<close> matches at the start of the string and after a
  newline; a line, being a piece of \<^verbatim>\<open>split("\n")\<close>, holds no newline, and the
  pattern matches no empty string, so the only match there can be starts at the line's
  first character, and \<open>sub\<close> deletes it.
\<close>

definition sub_line :: "string \<Rightarrow> string" where
  "sub_line line = (case rmatch speaker_pattern line Some of None \<Rightarrow> line | Some rest \<Rightarrow> rest)"

definition strip_speaker_labels :: "string \<Rightarrow> string" where
  "strip_speaker_labels transcript_text =
     join [CHR 0x0A] (map sub_line (split_on (CHR 0x0A) transcript_text))"

subsection \<open>The label as the specification words it\<close>








section \<open>Fetching the artifacts\<close>

text \<open>
  \<^verbatim>\<open>get_transcript_metadata\<close>: the answer to the one query it makes (its
  \<^verbatim>\<open>except\<close> clauses, then the first transcript if there is any), the undecorated
  function and the decorated one.
\<close>

definition get_transcript_metadata_result :: "transcript list outcome \<Rightarrow> transcript option outcome" where
  "get_transcript_metadata_result answer =
     (case answer of
        Raises e \<Rightarrow>
          (if e = NotFound then Returns None
           else if e = PermissionDenied then Raises PermissionError
           else Raises e)
      | Returns transcripts \<Rightarrow>
          (case transcripts of [] \<Rightarrow> Returns None | t # _ \<Rightarrow> Returns (Some t)))"

definition get_transcript_metadata_body ::
  "remote \<Rightarrow> string \<Rightarrow> history \<Rightarrow> transcript option outcome \<times> history" where
  "get_transcript_metadata_body client conference_record_name s =
     (get_transcript_metadata_result (list_transcripts client s conference_record_name),
      s @ [ListTranscripts conference_record_name])"

definition get_transcript_metadata ::
  "remote \<Rightarrow> string \<Rightarrow> history \<Rightarrow> (transcript option outcome \<times> history \<times> nat \<times> rat list) option" where
  "get_transcript_metadata client conference_record_name =
     retry_with_backoff MAX_RETRIES RETRY_BASE_DELAY_SECONDS transcript_retryable_exceptions
       (\<lambda>s. Some (get_transcript_metadata_body client conference_record_name s))"

text \<open>
  \<^verbatim>\<open>download_transcript_doc\<close> and \<^verbatim>\<open>download_notes_document\<close>: the export of the
  document as plain text (building the Drive service and decoding the bytes are part of the
  one call here), with an \<open>HttpError\<close> of status 403
  turned into \<open>PermissionError\<close>, one of status 404 into \<open>FileNotFoundError\<close>, and
  any other raised again. The two functions differ in their messages and in the retryable
  classes of their script's decorator.
\<close>

definition download_doc_result :: "string outcome \<Rightarrow> string outcome" where
  "download_doc_result answer =
     (case answer of
        Returns content \<Rightarrow> Returns content
      | Raises e \<Rightarrow>
          (case e of
             HttpError status \<Rightarrow>
               if status = 403 then Raises PermissionError
               else if status = 404 then Raises FileNotFoundError
               else Raises e
           | _ \<Rightarrow> Raises e))"

definition download_doc_body :: "remote \<Rightarrow> string \<Rightarrow> history \<Rightarrow> string outcome \<times> history" where
  "download_doc_body client doc_id s =
     (download_doc_result (files_export client s doc_id), s @ [FilesExport doc_id])"

definition download_transcript_doc ::
  "remote \<Rightarrow> string \<Rightarrow> history \<Rightarrow> (string outcome \<times> history \<times> nat \<times> rat list) option" where
  "download_transcript_doc client doc_id =
     retry_with_backoff MAX_RETRIES RETRY_BASE_DELAY_SECONDS transcript_retryable_exceptions
       (\<lambda>s. Some (download_doc_body client doc_id s))"

definition download_notes_document ::
  "remote \<Rightarrow> string \<Rightarrow> history \<Rightarrow> (string outcome \<times> history \<times> nat \<times> rat list) option" where
  "download_notes_document client doc_id =
     retry_with_backoff MAX_RETRIES RETRY_BASE_DELAY_SECONDS notes_retryable_exceptions
       (\<lambda>s. Some (download_doc_body client doc_id s))"

text \<open>
  The body of \<^verbatim>\<open>get_transcript_entries\<close>: the loop \<^verbatim>\<open>while True\<close> over the pages,
  with \<^verbatim>\<open>entries\<close> and \<^verbatim>\<open>page_token\<close> passed along. It ends when a page carries
  no continuation token or a call raises; a service that always sends a token keeps it
  running, and then the function has no result (\<open>None\<close>).
\<close>

partial_function (option) entries_pages ::
  "remote \<Rightarrow> string \<Rightarrow> transcript_entry list \<Rightarrow> string option \<Rightarrow> history
     \<Rightarrow> (transcript_entry list outcome \<times> history) option" where
  "entries_pages client parent entries page_token s =
     (case list_transcript_entries client s parent page_token of
        Raises e \<Rightarrow> Some (Raises e, s @ [ListTranscriptEntries parent page_token])
      | Returns response \<Rightarrow>
          if next_page_token response = []
          then Some (Returns (entries @ transcript_entries response),
                     s @ [ListTranscriptEntries parent page_token])
          else entries_pages client parent (entries @ transcript_entries response)
                 (Some (next_page_token response))
                 (s @ [ListTranscriptEntries parent page_token]))"

declare entries_pages.simps [code]

definition get_transcript_entries_body ::
  "remote \<Rightarrow> string \<Rightarrow> history \<Rightarrow> (transcript_entry list outcome \<times> history) option" where
  "get_transcript_entries_body client parent s = entries_pages client parent [] None s"

text \<open>
  The decorator is on the function, so one retry runs the whole body again: an empty
  \<^verbatim>\<open>entries\<close>, no \<^verbatim>\<open>page_token\<close>.
\<close>

definition get_transcript_entries ::
  "remote \<Rightarrow> string \<Rightarrow> history
     \<Rightarrow> (transcript_entry list outcome \<times> history \<times> nat \<times> rat list) option" where
  "get_transcript_entries client parent =
     retry_with_backoff MAX_RETRIES RETRY_BASE_DELAY_SECONDS transcript_retryable_exceptions
       (get_transcript_entries_body client parent)"

section \<open>The transcript script (get\_transcript.py, main)\<close>

datatype output_format = Json | Text

record args =
  arg_meeting_code :: string
  arg_after :: string
  arg_before :: "string option"
  arg_format :: output_format
  arg_include_speakers :: bool

text \<open>
  What one run ends with. \<open>Found\<close> is the success response with its fields;
  \<open>Failed\<close> is \<^verbatim>\<open>output_error\<close>, which exits with status 1, with the error code and
  the extra keyword fields (the message text is not modelled); \<open>Uncaught\<close> is an
  exception no handler of \<open>main\<close> catches.
\<close>

record found_data =
  found_meeting_code :: string
  found_conference_id :: string
  found_start_time :: "datetime option"
  found_end_time :: "datetime option"
  found_state :: string
  found_doc_id :: "string option"
  found_doc_url :: "string option"
  found_content :: string

type_synonym extras = "(string \<times> string option) list"

datatype resolution = Found found_data | Failed string extras | Uncaught exn

definition ERROR_INVALID_TIMESTAMP :: string where "ERROR_INVALID_TIMESTAMP = ''invalid_timestamp''"
definition ERROR_AUTH_CONFIG_MISSING :: string where "ERROR_AUTH_CONFIG_MISSING = ''auth_config_missing''"
definition ERROR_AUTH_REFRESH_FAILED :: string where "ERROR_AUTH_REFRESH_FAILED = ''auth_refresh_failed''"
definition ERROR_MEET_ACCESS_DENIED :: string where "ERROR_MEET_ACCESS_DENIED = ''meet_access_denied''"
definition ERROR_MEET_API_ERROR :: string where "ERROR_MEET_API_ERROR = ''meet_api_error''"
definition ERROR_NO_CONFERENCE :: string where "ERROR_NO_CONFERENCE = ''no_conference_record''"
definition ERROR_TRANSCRIPT_ACCESS_DENIED :: string where "ERROR_TRANSCRIPT_ACCESS_DENIED = ''transcript_access_denied''"
definition ERROR_TRANSCRIPT_API_ERROR :: string where "ERROR_TRANSCRIPT_API_ERROR = ''transcript_api_error''"
definition ERROR_NO_TRANSCRIPT :: string where "ERROR_NO_TRANSCRIPT = ''no_transcript''"
definition ERROR_TRANSCRIPT_NOT_READY :: string where "ERROR_TRANSCRIPT_NOT_READY = ''transcript_not_ready''"
definition ERROR_DRIVE_ACCESS_DENIED :: string where "ERROR_DRIVE_ACCESS_DENIED = ''drive_access_denied''"
definition ERROR_TRANSCRIPT_EMPTY :: string where "ERROR_TRANSCRIPT_EMPTY = ''transcript_empty''"
definition ERROR_TRANSCRIPT_FETCH_ERROR :: string where "ERROR_TRANSCRIPT_FETCH_ERROR = ''transcript_fetch_error''"
definition ERROR_API_NOT_AVAILABLE :: string where "ERROR_API_NOT_AVAILABLE = ''api_not_available''"
definition ERROR_NO_SMART_NOTES :: string where "ERROR_NO_SMART_NOTES = ''no_smart_notes''"
definition ERROR_NOTES_IN_PROGRESS :: string where "ERROR_NOTES_IN_PROGRESS = ''notes_in_progress''"
definition ERROR_NOTES_NOT_READY :: string where "ERROR_NOTES_NOT_READY = ''notes_not_ready''"
definition ERROR_NOTES_FETCH_ERROR :: string where "ERROR_NOTES_FETCH_ERROR = ''notes_fetch_error''"

text \<open>\<^verbatim>\<open>record.name.split("/")[-1]\<close>.\<close>

definition conference_id_of :: "conference_record \<Rightarrow> string" where
  "conference_id_of r = last (split_on (CHR ''/'') (record_name r))"

text \<open>\<^verbatim>\<open>str(n)\<close> for a non-negative integer, and the name of a transcript state.\<close>

function str_nat :: "nat \<Rightarrow> string" where
  "str_nat n = (if n < 10 then [char_of (48 + n)] else str_nat (n div 10) @ [char_of (48 + n mod 10)])"
  by pat_completeness auto
termination
  by (relation "measure id") auto

fun state_name_of :: "transcript_state \<Rightarrow> string" where
  "state_name_of STATE_UNSPECIFIED = ''STATE_UNSPECIFIED''"
| "state_name_of STARTED = ''STARTED''"
| "state_name_of ENDED = ''ENDED''"
| "state_name_of FILE_GENERATED = ''FILE_GENERATED''"
| "state_name_of (UnknownState n) = str_nat n"

text \<open>
  The timestamps of the command line. \<^verbatim>\<open>parse_timestamp\<close> rests on
  \<^verbatim>\<open>datetime.fromisoformat\<close> and \<^verbatim>\<open>strptime\<close> of the standard library, which are
  not modelled: the parser is a parameter \<open>parse\<close>. Whatever it accepts, the source makes
  timezone-aware (a naive reading gets UTC), so a parsed timestamp is its UTC instant;
  \<open>None\<close> is the \<open>ValueError\<close>. The result is the window, or the error exit.
\<close>

definition parse_timestamps :: "(string \<Rightarrow> int option) \<Rightarrow> args \<Rightarrow> resolution + (datetime \<times> datetime)" where
  "parse_timestamps parse a =
     (case parse (arg_after a) of
        None \<Rightarrow> Inl (Failed ERROR_INVALID_TIMESTAMP [])
      | Some after \<Rightarrow>
          (case arg_before a of
             None \<Rightarrow> Inr (Aware after, Aware (after + timedelta_hours DEFAULT_TIME_WINDOW_HOURS))
           | Some b \<Rightarrow>
               if b = [] then Inr (Aware after, Aware (after + timedelta_hours DEFAULT_TIME_WINDOW_HOURS))
               else (case parse b of
                       None \<Rightarrow> Inl (Failed ERROR_INVALID_TIMESTAMP [])
                     | Some before \<Rightarrow> Inr (Aware after, Aware before))))"

text \<open>
  \<^verbatim>\<open>get_credentials()\<close> with the two handlers of \<open>main\<close>; any other exception of
  the credential provider is not caught.
\<close>

definition authenticate :: "remote \<Rightarrow> history \<Rightarrow> resolution option \<times> history" where
  "authenticate client s =
     (case get_credentials client s of
        Returns creds \<Rightarrow> (None, s @ [GetCredentials])
      | Raises e \<Rightarrow>
          (if e = FileNotFoundError then (Some (Failed ERROR_AUTH_CONFIG_MISSING []), s @ [GetCredentials])
           else if e = RefreshError then (Some (Failed ERROR_AUTH_REFRESH_FAILED []), s @ [GetCredentials])
           else (Some (Uncaught e), s @ [GetCredentials])))"

text \<open>
  "Get transcript content", first half: the preferred export of the document. The result
  is an error exit, or the values of \<^verbatim>\<open>transcript_text\<close> (\<open>None\<close> as long as nothing
  was downloaded) and \<^verbatim>\<open>doc_url\<close> with which \<open>main\<close> goes on.
\<close>

definition transcript_download ::
  "remote \<Rightarrow> conference_record \<Rightarrow> transcript \<Rightarrow> history
     \<Rightarrow> ((resolution + (string option \<times> string option)) \<times> history) option" where
  "transcript_download client record tr s =
     (case docs_dest tr of
        None \<Rightarrow> Some (Inr (None, None), s)
      | Some dd \<Rightarrow>
          if document dd = [] then Some (Inr (None, None), s)
          else (let doc_id = document dd;
                    doc_url = py_or (export_uri dd)
                                (''https://docs.google.com/document/d/'' @ doc_id @ ''/edit'')
                in case download_transcript_doc client doc_id s of
                     None \<Rightarrow> None
                   | Some (Returns content, s', calls, sleeps) \<Rightarrow>
                       Some (Inr (Some content, Some doc_url), s')
                   | Some (Raises e, s', calls, sleeps) \<Rightarrow>
                       if e = PermissionError
                       then Some (Inl (Failed ERROR_DRIVE_ACCESS_DENIED
                                  [(''conference_id'', Some (conference_id_of record)),
                                   (''doc_url'', Some doc_url)]), s')
                       else if e = FileNotFoundError
                       then Some (Inr (None, Some doc_url), s')
                       else Some (Inr (None, Some doc_url), s')))"

text \<open>
  "Fallback: get raw transcript entries", entered when \<^verbatim>\<open>transcript_text\<close> is falsy:
  \<^verbatim>\<open>None\<close> or the empty string.
\<close>

definition transcript_fallback ::
  "remote \<Rightarrow> conference_record \<Rightarrow> transcript \<Rightarrow> string option \<Rightarrow> history
     \<Rightarrow> ((resolution + string) \<times> history) option" where
  "transcript_fallback client record tr transcript_text s =
     (if transcript_text = None \<or> transcript_text = Some []
      then (case get_transcript_entries client (transcript_name tr) s of
              None \<Rightarrow> None
            | Some (Returns entries, s', calls, sleeps) \<Rightarrow>
                if entries \<noteq> [] then Some (Inr (format_entries_as_text entries), s')
                else Some (Inl (Failed ERROR_TRANSCRIPT_EMPTY
                           [(''conference_id'', Some (conference_id_of record))]), s')
            | Some (Raises e, s', calls, sleeps) \<Rightarrow>
                Some (Inl (Failed ERROR_TRANSCRIPT_FETCH_ERROR
                      [(''conference_id'', Some (conference_id_of record))]), s'))
      else (case transcript_text of None \<Rightarrow> None | Some content \<Rightarrow> Some (Inr content, s)))"

text \<open>The part of \<open>main\<close> from "Get transcript content" to the success response.\<close>

definition transcript_content ::
  "remote \<Rightarrow> args \<Rightarrow> conference_record \<Rightarrow> transcript \<Rightarrow> history \<Rightarrow> (resolution \<times> history) option" where
  "transcript_content client a record tr s =
     (case transcript_download client record tr s of
        None \<Rightarrow> None
      | Some (Inl failed, s') \<Rightarrow> Some (failed, s')
      | Some (Inr (transcript_text, doc_url), s') \<Rightarrow>
          (case transcript_fallback client record tr transcript_text s' of
             None \<Rightarrow> None
           | Some (Inl failed, s'') \<Rightarrow> Some (failed, s'')
           | Some (Inr content, s'') \<Rightarrow>
               Some (Found \<lparr>found_meeting_code = arg_meeting_code a,
                            found_conference_id = conference_id_of record,
                            found_start_time = start_time record,
                            found_end_time = end_time record,
                            found_state = state_name_of (state tr),
                            found_doc_id = None,
                            found_doc_url = doc_url,
                            found_content = content\<rparr>, s'')))"

text \<open>The part of \<open>main\<close> from "Get transcript metadata" on: the readiness check.\<close>

definition transcript_of_record ::
  "remote \<Rightarrow> args \<Rightarrow> conference_record \<Rightarrow> history \<Rightarrow> (resolution \<times> history) option" where
  "transcript_of_record client a record s =
     (case get_transcript_metadata client (record_name record) s of
        None \<Rightarrow> None
      | Some (Raises e, s', calls, sleeps) \<Rightarrow>
          if e = PermissionError then Some (Failed ERROR_TRANSCRIPT_ACCESS_DENIED [], s')
          else Some (Failed ERROR_TRANSCRIPT_API_ERROR [], s')
      | Some (Returns None, s', calls, sleeps) \<Rightarrow>
          Some (Failed ERROR_NO_TRANSCRIPT
                  [(''conference_id'', Some (conference_id_of record)),
                   (''meeting_code'', Some (arg_meeting_code a))], s')
      | Some (Returns (Some tr), s', calls, sleeps) \<Rightarrow>
          if state tr \<noteq> FILE_GENERATED
          then Some (Failed ERROR_TRANSCRIPT_NOT_READY
                  [(''conference_id'', Some (conference_id_of record)),
                   (''transcript_state'', Some (state_name_of (state tr)))], s')
          else transcript_content client a record tr s')"

definition main :: "(string \<Rightarrow> int option) \<Rightarrow> remote \<Rightarrow> args \<Rightarrow> (resolution \<times> history) option" where
  "main parse client a =
     (case parse_timestamps parse a of
        Inl failed \<Rightarrow> Some (failed, [])
      | Inr (after, before) \<Rightarrow>
          (case authenticate client [] of
             (Some stopped, s) \<Rightarrow> Some (stopped, s)
           | (None, s) \<Rightarrow>
               (case find_conference_record client (arg_meeting_code a) after before s of
                  None \<Rightarrow> None
                | Some (Raises e, s', calls, sleeps) \<Rightarrow>
                    if e = PermissionError then Some (Failed ERROR_MEET_ACCESS_DENIED [], s')
                    else Some (Failed ERROR_MEET_API_ERROR [], s')
                | Some (Returns None, s', calls, sleeps) \<Rightarrow>
                    Some (Failed ERROR_NO_CONFERENCE
                            [(''meeting_code'', Some (arg_meeting_code a))], s')
                | Some (Returns (Some record), s', calls, sleeps) \<Rightarrow>
                    transcript_of_record client a record s')))"

text \<open>
  \<^verbatim>\<open>output_success\<close> in text format: the transcript, without the speaker labels unless
  \<^verbatim>\<open>--include-speakers\<close> was given.
\<close>

definition output_success_text :: "found_data \<Rightarrow> bool \<Rightarrow> string" where
  "output_success_text data include_speakers =
     (if \<not> include_speakers then strip_speaker_labels (found_content data) else found_content data)"

section \<open>The notes script (get\_smart\_notes.py, main)\<close>

text \<open>
  \<^verbatim>\<open>get_smart_notes_metadata\<close>, which has no retry decorator: the token is refreshed
  when expired, then one GET is made and its status decides. \<^verbatim>\<open>response.json()\<close>
  raises a \<open>ValueError\<close> on a body that is no JSON; \<^verbatim>\<open>.get("message", "")\<close> on an
  \<open>error\<close> value that is a string raises \<open>AttributeError\<close>;
  \<^verbatim>\<open>raise_for_status()\<close> raises for the statuses 400 to 599.
\<close>

definition smart_notes_url :: "string \<Rightarrow> string" where
  "smart_notes_url conference_record_id =
     ''https://meet.googleapis.com/v2beta/conferenceRecords/'' @ conference_record_id @ ''/smartNotes''"

definition response_json :: "http_response \<Rightarrow> notes_dict outcome" where
  "response_json response = (case json_body response of None \<Rightarrow> Raises ValueError | Some d \<Rightarrow> Returns d)"

definition smart_notes_response :: "http_response \<Rightarrow> notes_dict outcome" where
  "smart_notes_response response =
     (if status_code response = 200 then response_json response
      else if status_code response = 404
      then (case response_json response of
              Raises e \<Rightarrow> Raises e
            | Returns d \<Rightarrow>
                (case (case d_error d of
                         None \<Rightarrow> Returns []
                       | Some (ErrorString str) \<Rightarrow> Raises AttributeError
                       | Some (ErrorObject None) \<Rightarrow> Returns []
                       | Some (ErrorObject (Some m)) \<Rightarrow> Returns m) of
                   Raises e \<Rightarrow> Raises e
                 | Returns message \<Rightarrow>
                     if sublist ''Method not found'' message
                     then Returns \<lparr>d_error = Some (ErrorString ''api_not_available''),
                                   d_message = None, d_smartNotes = None\<rparr>
                     else Returns \<lparr>d_error = None, d_message = None, d_smartNotes = Some []\<rparr>))
      else if status_code response = 403
      then Returns \<lparr>d_error = Some (ErrorString ''permission_denied''),
                    d_message = Some (response_text response), d_smartNotes = None\<rparr>
      else if status_code response = 429 then Raises ResourceExhausted
      else if 400 \<le> status_code response \<and> status_code response < 600
      then Raises (RequestsHTTPError (status_code response))
      else response_json response)"

definition get_smart_notes_metadata :: "remote \<Rightarrow> string \<Rightarrow> history \<Rightarrow> notes_dict outcome \<times> history" where
  "get_smart_notes_metadata client conference_record_id s =
     (case (if credentials_expired client s
            then (credentials_refresh client s, s @ [RefreshCredentials])
            else (Returns (), s)) of
        (Raises e, s') \<Rightarrow> (Raises e, s')
      | (Returns u, s') \<Rightarrow>
          (case requests_get client s' (smart_notes_url conference_record_id) of
             Raises e \<Rightarrow>
               (if e = RequestsTimeout then Raises TimeoutError
                else if e = RequestsConnectionError then Raises ConnectionError
                else Raises e,
                s' @ [GetSmartNotes (smart_notes_url conference_record_id)])
           | Returns response \<Rightarrow>
               (smart_notes_response response,
                s' @ [GetSmartNotes (smart_notes_url conference_record_id)])))"

text \<open>
  The part of \<open>main\<close> once the state is \<open>FILE_GENERATED\<close>: the guard on the document
  id, then the download, which is all the notes script has; there is no second source.
\<close>

definition notes_content ::
  "remote \<Rightarrow> args \<Rightarrow> conference_record \<Rightarrow> smart_note \<Rightarrow> history \<Rightarrow> (resolution \<times> history) option" where
  "notes_content client a record note s =
     (case (case docsDestination note of None \<Rightarrow> None | Some dd \<Rightarrow> dj_document dd) of
        None \<Rightarrow> Some (Failed ERROR_NOTES_FETCH_ERROR
                   [(''conference_id'', Some (conference_id_of record)),
                    (''notes_state'', note_state note)], s)
      | Some doc_id \<Rightarrow>
          if doc_id = []
          then Some (Failed ERROR_NOTES_FETCH_ERROR
                   [(''conference_id'', Some (conference_id_of record)),
                    (''notes_state'', note_state note)], s)
          else (let doc_url =
                      py_or (case (case docsDestination note of None \<Rightarrow> None | Some dd \<Rightarrow> dj_exportUri dd) of
                               None \<Rightarrow> [] | Some u \<Rightarrow> u)
                        (''https://docs.google.com/document/d/'' @ doc_id @ ''/edit'')
                in case download_notes_document client doc_id s of
                     None \<Rightarrow> None
                   | Some (Returns notes_text, s', calls, sleeps) \<Rightarrow>
                       Some (Found \<lparr>found_meeting_code = arg_meeting_code a,
                                    found_conference_id = conference_id_of record,
                                    found_start_time = start_time record,
                                    found_end_time = end_time record,
                                    found_state = (case note_state note of None \<Rightarrow> [] | Some st \<Rightarrow> st),
                                    found_doc_id = Some doc_id,
                                    found_doc_url = Some doc_url,
                                    found_content = notes_text\<rparr>, s')
                   | Some (Raises e, s', calls, sleeps) \<Rightarrow>
                       if e = PermissionError
                       then Some (Failed ERROR_DRIVE_ACCESS_DENIED
                                  [(''conference_id'', Some (conference_id_of record)),
                                   (''doc_url'', Some doc_url)], s')
                       else if e = FileNotFoundError
                       then Some (Failed ERROR_NOTES_FETCH_ERROR
                                  [(''conference_id'', Some (conference_id_of record)),
                                   (''doc_url'', Some doc_url)], s')
                       else Some (Failed ERROR_NOTES_FETCH_ERROR
                                  [(''conference_id'', Some (conference_id_of record)),
                                   (''doc_url'', Some doc_url)], s')))"

text \<open>The part of \<open>main\<close> from "Get Smart Notes metadata" on: the readiness check.\<close>

definition notes_of_record ::
  "remote \<Rightarrow> args \<Rightarrow> conference_record \<Rightarrow> history \<Rightarrow> (resolution \<times> history) option" where
  "notes_of_record client a record s =
     (case get_smart_notes_metadata client (conference_id_of record) s of
        (Raises e, s') \<Rightarrow>
          Some (Failed ERROR_NOTES_FETCH_ERROR [(''conference_id'', Some (conference_id_of record))], s')
      | (Returns notes_response, s') \<Rightarrow>
          if d_error notes_response = Some (ErrorString ''api_not_available'')
          then Some (Failed ERROR_API_NOT_AVAILABLE
                  [(''conference_id'', Some (conference_id_of record))], s')
          else if d_error notes_response = Some (ErrorString ''permission_denied'')
          then Some (Failed ERROR_MEET_ACCESS_DENIED
                  [(''conference_id'', Some (conference_id_of record))], s')
          else (case (case d_smartNotes notes_response of None \<Rightarrow> [] | Some ns \<Rightarrow> ns) of
                  [] \<Rightarrow> Some (Failed ERROR_NO_SMART_NOTES
                          [(''conference_id'', Some (conference_id_of record)),
                           (''meeting_code'', Some (arg_meeting_code a))], s')
                | note # _ \<Rightarrow>
                    if note_state note = Some ''STARTED''
                    then Some (Failed ERROR_NOTES_IN_PROGRESS
                            [(''conference_id'', Some (conference_id_of record)),
                             (''notes_state'', note_state note)], s')
                    else if note_state note = Some ''ENDED''
                    then Some (Failed ERROR_NOTES_NOT_READY
                            [(''conference_id'', Some (conference_id_of record)),
                             (''notes_state'', note_state note)], s')
                    else if note_state note \<noteq> Some ''FILE_GENERATED''
                    then Some (Failed ERROR_NOTES_NOT_READY
                            [(''conference_id'', Some (conference_id_of record)),
                             (''notes_state'', note_state note)], s')
                    else notes_content client a record note s'))"

definition notes_main :: "(string \<Rightarrow> int option) \<Rightarrow> remote \<Rightarrow> args \<Rightarrow> (resolution \<times> history) option" where
  "notes_main parse client a =
     (case parse_timestamps parse a of
        Inl failed \<Rightarrow> Some (failed, [])
      | Inr (after, before) \<Rightarrow>
          (case authenticate client [] of
             (Some stopped, s) \<Rightarrow> Some (stopped, s)
           | (None, s) \<Rightarrow>
               (case notes_find_conference_record client (arg_meeting_code a) after before s of
                  None \<Rightarrow> None
                | Some (Raises e, s', calls, sleeps) \<Rightarrow>
                    if e = PermissionError then Some (Failed ERROR_MEET_ACCESS_DENIED [], s')
                    else Some (Failed ERROR_MEET_API_ERROR [], s')
                | Some (Returns None, s', calls, sleeps) \<Rightarrow>
                    Some (Failed ERROR_NO_CONFERENCE
                            [(''meeting_code'', Some (arg_meeting_code a))], s')
                | Some (Returns (Some record), s', calls, sleeps) \<Rightarrow>
                    notes_of_record client a record s')))"

section \<open>Concrete services and command lines for the examples\<close>

definition example_records :: "conference_record list" where
  "example_records =
     [\<lparr>record_name = ''conferenceRecords/late'', start_time = Some (Aware 18), end_time = None\<rparr>,
      \<lparr>record_name = ''conferenceRecords/first'', start_time = Some (Aware 12), end_time = Some (Aware 15)\<rparr>,
      \<lparr>record_name = ''conferenceRecords/second'', start_time = Some (Aware 12), end_time = None\<rparr>,
      \<lparr>record_name = ''conferenceRecords/outside'', start_time = Some (Aware 30), end_time = None\<rparr>,
      \<lparr>record_name = ''conferenceRecords/unset'', start_time = None, end_time = None\<rparr>]"

definition example_transcript :: transcript where
  "example_transcript =
     \<lparr>transcript_name = ''conferenceRecords/first/transcripts/t1'', state = FILE_GENERATED,
      docs_dest = Some \<lparr>document = ''doc1'', export_uri = ''''\<rparr>\<rparr>"

definition example_entries :: "transcript_entry list" where
  "example_entries =
     [\<lparr>participant = ''A'', entry_text = ''hi''\<rparr>,
      \<lparr>participant = ''A'', entry_text = ''there''\<rparr>,
      \<lparr>participant = ''B'', entry_text = ''yo''\<rparr>]"

definition example_note :: smart_note where
  "example_note =
     \<lparr>note_state = Some ''FILE_GENERATED'',
      docsDestination = Some \<lparr>dj_document = Some ''doc2'', dj_exportUri = None\<rparr>\<rparr>"

text \<open>
  A service where everything is in place: the sessions above, one generated transcript
  with its document, one page of raw entries, one generated note with its document.
\<close>

definition example_client :: remote where
  "example_client =
     \<lparr>get_credentials = (\<lambda>h. Returns ()),
      credentials_expired = (\<lambda>h. False),
      credentials_refresh = (\<lambda>h. Returns ()),
      list_conference_records = (\<lambda>h filter_str. Returns example_records),
      list_transcripts = (\<lambda>h parent. Returns [example_transcript]),
      files_export = (\<lambda>h doc_id. Returns ''Ann: good morning''),
      list_transcript_entries =
        (\<lambda>h parent page_token. Returns \<lparr>transcript_entries = example_entries, next_page_token = ''''\<rparr>),
      requests_get =
        (\<lambda>h url. Returns \<lparr>status_code = 200,
                           json_body = Some \<lparr>d_error = None, d_message = None,
                                             d_smartNotes = Some [example_note]\<rparr>,
                           response_text = ''''\<rparr>)\<rparr>"

text \<open>The same service with a transcript, and a note, that name no document.\<close>

definition no_document_client :: remote where
  "no_document_client =
     example_client
       \<lparr>list_transcripts := (\<lambda>h parent. Returns [example_transcript\<lparr>docs_dest := None\<rparr>]),
        requests_get :=
          (\<lambda>h url. Returns \<lparr>status_code = 200,
                             json_body = Some \<lparr>d_error = None, d_message = None,
                                               d_smartNotes = Some [example_note\<lparr>docsDestination := None\<rparr>]\<rparr>,
                             response_text = ''''\<rparr>)\<rparr>"

text \<open>The same service with a document export that answers 404, 403, or the empty text.\<close>

definition export_not_found_client :: remote where
  "export_not_found_client = example_client\<lparr>files_export := (\<lambda>h doc_id. Raises (HttpError 404))\<rparr>"

definition export_denied_client :: remote where
  "export_denied_client = example_client\<lparr>files_export := (\<lambda>h doc_id. Raises (HttpError 403))\<rparr>"

definition export_empty_client :: remote where
  "export_empty_client = example_client\<lparr>files_export := (\<lambda>h doc_id. Returns [])\<rparr>"

definition export_empty_no_entries_client :: remote where
  "export_empty_no_entries_client =
     export_empty_client
       \<lparr>list_transcript_entries :=
          (\<lambda>h parent page_token. Returns \<lparr>transcript_entries = [], next_page_token = ''''\<rparr>)\<rparr>"


text \<open>
  The parser on the three timestamps of the examples. Instants are counted from
  1970-01-01T00:00:00 UTC; a naive timestamp is read as UTC.
\<close>

fun example_parse :: "string \<Rightarrow> int option" where
  "example_parse str =
     (if str = ''1970-01-01T00:00:00.000010'' then Some 10
      else if str = ''1970-01-01T00:00:00.000020'' then Some 20
      else if str = ''1970-01-01T00:00:00.000005'' then Some 5
      else None)"

definition example_args :: args where
  "example_args =
     \<lparr>arg_meeting_code = ''abc-defg-hij'', arg_after = ''1970-01-01T00:00:00.000010'',
      arg_before = Some ''1970-01-01T00:00:00.000020'',
      arg_format = Json, arg_include_speakers = False\<rparr>"

text \<open>A command line whose window is empty: it ends before it starts.\<close>

definition empty_window_args :: args where
  "empty_window_args = example_args\<lparr>arg_before := Some ''1970-01-01T00:00:00.000005''\<rparr>"

section \<open>Notions for stating the properties of the two scripts\<close>

text \<open>
  The outcome of the raw-entries path of the transcript script, entered with history \<open>s\<close>
  and the document link \<open>doc_url\<close> found so far: the paginated entries are fetched; none
  at all is the empty-content failure, a raised exception the fetch failure, and otherwise
  the reconstructed text is the content of the success response.
\<close>

definition raw_entries_outcome ::
  "remote \<Rightarrow> args \<Rightarrow> conference_record \<Rightarrow> transcript \<Rightarrow> string option \<Rightarrow> history
     \<Rightarrow> (resolution \<times> history) option" where
  "raw_entries_outcome client a record tr doc_url s =
     (case get_transcript_entries client (transcript_name tr) s of
        None \<Rightarrow> None
      | Some (Returns entries, s', calls, sleeps) \<Rightarrow>
          if entries = []
          then Some (Failed ERROR_TRANSCRIPT_EMPTY
                       [(''conference_id'', Some (conference_id_of record))], s')
          else Some (Found \<lparr>found_meeting_code = arg_meeting_code a,
                            found_conference_id = conference_id_of record,
                            found_start_time = start_time record,
                            found_end_time = end_time record,
                            found_state = ''FILE_GENERATED'',
                            found_doc_id = None,
                            found_doc_url = doc_url,
                            found_content = format_entries_as_text entries\<rparr>, s')
      | Some (Raises e, s', calls, sleeps) \<Rightarrow>
          Some (Failed ERROR_TRANSCRIPT_FETCH_ERROR
                  [(''conference_id'', Some (conference_id_of record))], s'))"

text \<open>
  A run of the transcript script has parsed its window, authenticated, resolved the session
  \<open>record\<close> and read the metadata \<open>tr\<close> of its transcript in state \<open>FILE_GENERATED\<close>,
  all within the history \<open>s\<close>.
\<close>

definition transcript_ready_at ::
  "(string \<Rightarrow> int option) \<Rightarrow> remote \<Rightarrow> args \<Rightarrow> conference_record \<Rightarrow> transcript \<Rightarrow> history \<Rightarrow> bool" where
  "transcript_ready_at parse client a record tr s =
     (\<exists>after before s0 s1 c1 sl1 c2 sl2.
        parse_timestamps parse a = Inr (after, before)
      \<and> authenticate client [] = (None, s0)
      \<and> find_conference_record client (arg_meeting_code a) after before s0
          = Some (Returns (Some record), s1, c1, sl1)
      \<and> get_transcript_metadata client (record_name record) s1 = Some (Returns (Some tr), s, c2, sl2)
      \<and> state tr = FILE_GENERATED)"

text \<open>
  The same for the notes script: the metadata answer carries no error marker of the script's
  own, and its first note is \<open>note\<close>, in state \<open>FILE_GENERATED\<close>.
\<close>

definition notes_ready_at ::
  "(string \<Rightarrow> int option) \<Rightarrow> remote \<Rightarrow> args \<Rightarrow> conference_record \<Rightarrow> smart_note \<Rightarrow> history \<Rightarrow> bool" where
  "notes_ready_at parse client a record note s =
     (\<exists>after before s0 s1 c1 sl1 d rest.
        parse_timestamps parse a = Inr (after, before)
      \<and> authenticate client [] = (None, s0)
      \<and> notes_find_conference_record client (arg_meeting_code a) after before s0
          = Some (Returns (Some record), s1, c1, sl1)
      \<and> get_smart_notes_metadata client (conference_id_of record) s1 = (Returns d, s)
      \<and> d_error d \<noteq> Some (ErrorString ''api_not_available'')
      \<and> d_error d \<noteq> Some (ErrorString ''permission_denied'')
      \<and> d_smartNotes d = Some (note # rest)
      \<and> note_state note = Some ''FILE_GENERATED'')"

text \<open>The link \<^verbatim>\<open>doc_url\<close> of a document: the export URI if there is one, else the edit link.\<close>

definition doc_url_of :: "string \<Rightarrow> string \<Rightarrow> string" where
  "doc_url_of uri doc_id = py_or uri (''https://docs.google.com/document/d/'' @ doc_id @ ''/edit'')"

section \<open>Verification\<close>

subsection \<open>Transcript reconstruction\<close>

lemma spec_groups_texts_nonempty: "(s, ts) \<in> set (spec_groups es) \<Longrightarrow> ts \<noteq> []"
  by (induction es arbitrary: s ts) (auto split: list.splits if_splits)

text \<open>The groups, flattened, are the entries again in their order: nothing is lost or moved.\<close>

lemma spec_groups_flatten:
  "concat (map (\<lambda>g. map (\<lambda>t. (fst g, t)) (snd g)) (spec_groups es))
     = map (\<lambda>e. (spec_speaker e, entry_text e)) es"
  by (induction es) (auto split: list.splits)

text \<open>Neighbouring groups have different speakers: each group is a maximal run.\<close>

lemma spec_groups_maximal:
  "Suc i < length (spec_groups es) \<Longrightarrow> fst (spec_groups es ! i) \<noteq> fst (spec_groups es ! Suc i)"
proof (induction es arbitrary: i)
  case Nil
  then show ?case by simp
next
  case (Cons e es)
  show ?case
  proof (cases "spec_groups es")
    case Nil
    with Cons.prems show ?thesis by simp
  next
    case (Cons g gs)
    obtain s ts where g: "g = (s, ts)" by (cases g)
    show ?thesis
    proof (cases "spec_speaker e = s")
      case True
      with Cons.prems Cons.IH[of i] Cons g show ?thesis
        by (cases i) (auto split: if_splits)
    next
      case False
      with Cons.prems Cons.IH[of "i - 1"] Cons g show ?thesis
        by (cases i) (auto split: if_splits)
    qed
  qed
qed

lemma entries_loop_flush:
  "ct \<noteq> [] \<Longrightarrow> flush (entries_loop es lines (Some s) ct)
     = lines @ map spec_paragraph (absorb (s, ct) (spec_groups es))"
proof (induction es arbitrary: lines s ct)
  case Nil
  then show ?case by (simp add: flush_def speaker_line_def spec_paragraph_def)
next
  case (Cons e es)
  show ?case
    using Cons.prems Cons.IH[of "ct @ [entry_text e]" lines s]
      Cons.IH[of "[entry_text e]" "lines @ [speaker_line (Some s) ct]" "spec_speaker e"]
    by (auto simp: Let_def py_or_def spec_speaker_def speaker_line_def spec_paragraph_def
        split: list.splits)
qed

lemma absorb_first: "absorb (spec_speaker e, [entry_text e]) (spec_groups es) = spec_groups (e # es)"
  by (cases "spec_groups es") auto

lemma format_entries_refines:
  "format_entries_as_text entries = spec_reconstruct entries"
proof (cases entries)
  case Nil
  then show ?thesis by (simp add: format_entries_as_text_def spec_reconstruct_def)
next
  case (Cons e es)
  have fl: "flush (entries_loop (e # es) [] None []) = map spec_paragraph (spec_groups (e # es))"
    using entries_loop_flush[of "[entry_text e]" es "[]" "spec_speaker e"] absorb_first[of e es]
    by (simp add: Let_def py_or_def spec_speaker_def)
  obtain lines cs ct where r: "entries_loop (e # es) [] None [] = (lines, cs, ct)"
    by (cases "entries_loop (e # es) [] None []") auto
  have "format_entries_as_text (e # es)
          = join [CHR 0x0A, CHR 0x0A] (flush (entries_loop (e # es) [] None []))"
    unfolding format_entries_as_text_def flush_def r by simp
  with fl Cons show ?thesis
    by (simp only: spec_reconstruct_def)
qed

text \<open>
  Claim C8. Reconstruction of raw transcript entries groups consecutive entries of the same
  speaker into one paragraph "speaker: texts joined by single spaces", separates the
  paragraphs by a blank line and gives an entry without participant label the speaker
  Unknown: the loop of the source computes, for every list of entries, the text that the
  specification's wording describes. In particular the entries (A, hi), (A, there), (B, yo)
  give "A: hi there", a blank line, "B: yo".
\<close>

theorem C8_format_entries_as_text:
  "format_entries_as_text entries = spec_reconstruct entries
   \<and> format_entries_as_text
         [\<lparr>participant = ''A'', entry_text = ''hi''\<rparr>,
          \<lparr>participant = ''A'', entry_text = ''there''\<rparr>,
          \<lparr>participant = ''B'', entry_text = ''yo''\<rparr>]
       = ''A: hi there'' @ [CHR 0x0A, CHR 0x0A] @ ''B: yo''
   \<and> spec_reconstruct [\<lparr>participant = '''', entry_text = ''hm''\<rparr>] = ''Unknown: hm''"
proof -
  have a: "format_entries_as_text entries = spec_reconstruct entries"
    by (rule format_entries_refines)
  have b: "format_entries_as_text
         [\<lparr>participant = ''A'', entry_text = ''hi''\<rparr>,
          \<lparr>participant = ''A'', entry_text = ''there''\<rparr>,
          \<lparr>participant = ''B'', entry_text = ''yo''\<rparr>]
       = ''A: hi there'' @ [CHR 0x0A, CHR 0x0A] @ ''B: yo''"
    by (simp add: format_entries_as_text_def py_or_def speaker_line_def Let_def)
  have c: "spec_reconstruct [\<lparr>participant = '''', entry_text = ''hm''\<rparr>] = ''Unknown: hm''"
    by (simp add: spec_reconstruct_def spec_speaker_def spec_paragraph_def)
  from a b c show ?thesis by simp
qed

subsection \<open>The retry executor\<close>


text \<open>A value the wrapper returns is a value some invocation of the function returned.\<close>

lemma wrapper_loop_Returns:
  "wrapper_loop m bd rx func atts lst s n sl = Some (Returns v, s', n', sl')
     \<Longrightarrow> \<exists>s0. func s0 = Some (Returns v, s')"
proof (induction atts arbitrary: lst s n sl)
  case Nil
  then show ?case by simp
next
  case (Cons a atts)
  show ?case
  proof (cases "func s")
    case None
    with Cons.prems show ?thesis by simp
  next
    case (Some p)
    obtain out s1 where p: "p = (out, s1)" by (cases p)
    show ?thesis
    proof (cases out)
      case (Returns w)
      with Cons.prems Some p show ?thesis by auto
    next
      case (Raises e)
      with Cons.prems Some p Cons.IH show ?thesis
        by (auto simp: Let_def split: if_splits exn.splits)
    qed
  qed
qed

lemma retry_with_backoff_Returns:
  "retry_with_backoff m bd rx func s = Some (Returns v, s', n', sl')
     \<Longrightarrow> \<exists>s0. func s0 = Some (Returns v, s')"
  unfolding retry_with_backoff_def by (rule wrapper_loop_Returns)

lemma retry_with_backoff_first_Returns:
  assumes "0 \<le> m" and "func s = Some (Returns v, s')"
  shows "retry_with_backoff m bd rx func s = Some (Returns v, s', 1, [])"
proof -
  from assms(1) have "[0..m] = 0 # [1..m]"
    by (simp add: upto_rec1)
  with assms(2) show ?thesis
    by (simp add: retry_with_backoff_def)
qed



subsection \<open>The session resolver\<close>

lemma matching_loop_filter:
  "matching_loop records (Aware a) (Aware b) acc = Inr (acc @ filter (in_window a b) records)"
proof (induction records arbitrary: acc)
  case Nil
  then show ?case by simp
next
  case (Cons r rs)
  show ?case
  proof (cases "start_time r")
    case None
    then show ?thesis using Cons.IH by (simp add: in_window_def)
  next
    case (Some st)
    then have iw: "in_window a b r = (a \<le> utc_instant st \<and> utc_instant st \<le> b)"
      by (simp add: in_window_def)
    show ?thesis using Some Cons.IH
      by (cases st) (auto simp: iw Let_def split: bool.splits)
  qed
qed









lemma MAX_RETRIES_nonneg: "0 \<le> MAX_RETRIES"
  by (simp add: MAX_RETRIES_def)

lemma find_conference_record_first_answer:
  assumes "find_conference_record_result (list_conference_records client s (transcript_filter_str code)) after before = Returns v"
  shows "find_conference_record client code after before s
           = Some (Returns v, s @ [ListConferenceRecords (transcript_filter_str code)], 1, [])"
  unfolding find_conference_record_def
  by (rule retry_with_backoff_first_Returns[OF MAX_RETRIES_nonneg])
     (simp add: find_conference_record_body_def assms)

lemma notes_find_conference_record_first_answer:
  assumes "find_conference_record_result (list_conference_records client s (notes_filter_str code)) after before = Returns v"
  shows "notes_find_conference_record client code after before s
           = Some (Returns v, s @ [ListConferenceRecords (notes_filter_str code)], 1, [])"
  unfolding notes_find_conference_record_def
  by (rule retry_with_backoff_first_Returns[OF MAX_RETRIES_nonneg])
     (simp add: find_conference_record_body_def assms)



lemma decorate_map_snd: "decorate keyfunc xs = Inr ks \<Longrightarrow> map snd ks = xs"
  by (induction xs arbitrary: ks) (auto split: sum.splits)

lemma list_sort_set: "list_sort keyfunc xs = Inr ys \<Longrightarrow> set ys = set xs"
proof -
  assume "list_sort keyfunc xs = Inr ys"
  then obtain ks where ks: "decorate keyfunc xs = Inr ks" "ys = map snd (sort_key fst ks)"
    by (auto simp: list_sort_def split: sum.splits)
  from decorate_map_snd[OF ks(1)] have "set xs = snd ` set ks" by (metis set_map)
  with ks(2) show ?thesis by simp
qed

lemma find_result_in_window:
  assumes "find_conference_record_result answer (Aware a) (Aware b) = Returns (Some r)"
  shows "in_window a b r"
proof (cases answer)
  case (Raises e)
  with assms show ?thesis by (simp add: find_conference_record_result_def split: if_splits)
next
  case (Returns records)
  with assms obtain sorted_records rest where
    s: "list_sort (closest_key (Aware a)) (filter (in_window a b) records) = Inr sorted_records"
       "sorted_records = r # rest"
    by (auto simp: find_conference_record_result_def matching_loop_filter
             split: if_splits sum.splits list.splits)
  from list_sort_set[OF s(1)] s(2) have "r \<in> set (filter (in_window a b) records)" by auto
  then show ?thesis by simp
qed

text \<open>
  Claim C5. The window filter keeps exactly the sessions whose start time, read as UTC when
  it is naive, lies within \<open>[after, before]\<close>, bounds included, in their original order;
  a session without start time or with a start time outside the window is dropped, whatever
  its code. Hence a session that the resolver of either script returns lies in the window.
\<close>

theorem C5_window_filter:
  "matching_loop records (Aware a) (Aware b) [] = Inr (filter (in_window a b) records)
   \<and> (\<forall>r s' n sl. find_conference_record client code (Aware a) (Aware b) s
                      = Some (Returns (Some r), s', n, sl) \<longrightarrow> in_window a b r)
   \<and> (\<forall>r s' n sl. notes_find_conference_record client code (Aware a) (Aware b) s
                      = Some (Returns (Some r), s', n, sl) \<longrightarrow> in_window a b r)"
proof (intro conjI allI impI)
  show "matching_loop records (Aware a) (Aware b) [] = Inr (filter (in_window a b) records)"
    by (simp add: matching_loop_filter)
next
  fix r s' n sl
  assume "find_conference_record client code (Aware a) (Aware b) s = Some (Returns (Some r), s', n, sl)"
  from retry_with_backoff_Returns[OF this[unfolded find_conference_record_def]]
  obtain s0 where "find_conference_record_body client (transcript_filter_str code) (Aware a) (Aware b) s0
                     = (Returns (Some r), s')" by auto
  then show "in_window a b r"
    by (auto simp: find_conference_record_body_def intro: find_result_in_window)
next
  fix r s' n sl
  assume "notes_find_conference_record client code (Aware a) (Aware b) s = Some (Returns (Some r), s', n, sl)"
  from retry_with_backoff_Returns[OF this[unfolded notes_find_conference_record_def]]
  obtain s0 where "find_conference_record_body client (notes_filter_str code) (Aware a) (Aware b) s0
                     = (Returns (Some r), s')" by auto
  then show "in_window a b r"
    by (auto simp: find_conference_record_body_def intro: find_result_in_window)
qed

lemma example_find:
  "find_conference_record_result (Returns example_records) (Aware 10) (Aware 20)
     = Returns (Some (example_records ! 1))"
  by code_simp

theorem C5_window_filter_witness:
  "find_conference_record example_client ''abc-defg-hij'' (Aware 10) (Aware 20) []
     = Some (Returns (Some (example_records ! 1)),
             [ListConferenceRecords (transcript_filter_str ''abc-defg-hij'')], 1, [])
   \<and> notes_find_conference_record example_client ''abc-defg-hij'' (Aware 10) (Aware 20) []
     = Some (Returns (Some (example_records ! 1)),
             [ListConferenceRecords (notes_filter_str ''abc-defg-hij'')], 1, [])
   \<and> in_window 10 20 (example_records ! 1)
   \<and> \<not> in_window 10 20 (example_records ! 3)"
proof -
  have t: "find_conference_record example_client ''abc-defg-hij'' (Aware 10) (Aware 20) []
     = Some (Returns (Some (example_records ! 1)),
             [ListConferenceRecords (transcript_filter_str ''abc-defg-hij'')], 1, [])"
    using find_conference_record_first_answer[of example_client "[]" "''abc-defg-hij''" "Aware 10" "Aware 20" "Some (example_records ! 1)"]
    by (simp add: example_client_def example_find)
  have n: "notes_find_conference_record example_client ''abc-defg-hij'' (Aware 10) (Aware 20) []
     = Some (Returns (Some (example_records ! 1)),
             [ListConferenceRecords (notes_filter_str ''abc-defg-hij'')], 1, [])"
    using notes_find_conference_record_first_answer[of example_client "[]" "''abc-defg-hij''" "Aware 10" "Aware 20" "Some (example_records ! 1)"]
    by (simp add: example_client_def example_find)
  have w: "in_window 10 20 (example_records ! 1)"
    using C5_window_filter[of example_records 10 20 example_client "''abc-defg-hij''" "[]"] t by blast
  have w': "in_window 10 20 (example_records ! 1)"
    using C5_window_filter[of example_records 10 20 example_client "''abc-defg-hij''" "[]"] n by blast
  have o: "\<not> in_window 10 20 (example_records ! 3)"
    by (simp add: example_records_def in_window_def)
  from t n w w' o show ?thesis by blast
qed

subsection \<open>The text normaliser\<close>
























lemma split_on_no_sep: "l \<in> set (split_on sep s) \<Longrightarrow> sep \<notin> set l"
  by (induction s arbitrary: l) (auto split: if_splits list.splits)



subsection \<open>The two scripts\<close>

lemma retry_with_backoff_first_fatal:
  assumes "0 \<le> m" and "func s = Some (Raises e, s')" and "\<not> retryable_failure rx e"
  shows "retry_with_backoff m bd rx func s = Some (Raises e, s', 1, [])"
proof -
  from assms(1) have u: "[0..m] = 0 # [1..m]"
    by (simp add: upto_rec1)
  from assms(3) have "\<not> rx e" "e \<noteq> ResourceExhausted" "e \<noteq> HttpError 429"
    by (auto simp: retryable_failure_def)
  with assms(2) u show ?thesis
    by (cases e) (simp_all add: retry_with_backoff_def Let_def)
qed

lemma download_transcript_doc_Returns:
  "files_export client s d = Returns c
     \<Longrightarrow> download_transcript_doc client d s = Some (Returns c, s @ [FilesExport d], 1, [])"
  unfolding download_transcript_doc_def
  by (rule retry_with_backoff_first_Returns[OF MAX_RETRIES_nonneg])
     (simp add: download_doc_body_def download_doc_result_def)

lemma download_transcript_doc_404:
  "files_export client s d = Raises (HttpError 404)
     \<Longrightarrow> download_transcript_doc client d s = Some (Raises FileNotFoundError, s @ [FilesExport d], 1, [])"
  unfolding download_transcript_doc_def
  by (rule retry_with_backoff_first_fatal[OF MAX_RETRIES_nonneg])
     (simp_all add: download_doc_body_def download_doc_result_def retryable_failure_def
        transcript_retryable_exceptions_def)

lemma download_transcript_doc_403:
  "files_export client s d = Raises (HttpError 403)
     \<Longrightarrow> download_transcript_doc client d s = Some (Raises PermissionError, s @ [FilesExport d], 1, [])"
  unfolding download_transcript_doc_def
  by (rule retry_with_backoff_first_fatal[OF MAX_RETRIES_nonneg])
     (simp_all add: download_doc_body_def download_doc_result_def retryable_failure_def
        transcript_retryable_exceptions_def)

lemma download_notes_document_404:
  "files_export client s d = Raises (HttpError 404)
     \<Longrightarrow> download_notes_document client d s = Some (Raises FileNotFoundError, s @ [FilesExport d], 1, [])"
  unfolding download_notes_document_def
  by (rule retry_with_backoff_first_fatal[OF MAX_RETRIES_nonneg])
     (simp_all add: download_doc_body_def download_doc_result_def retryable_failure_def
        notes_retryable_exceptions_def)

lemma download_notes_document_403:
  "files_export client s d = Raises (HttpError 403)
     \<Longrightarrow> download_notes_document client d s = Some (Raises PermissionError, s @ [FilesExport d], 1, [])"
  unfolding download_notes_document_def
  by (rule retry_with_backoff_first_fatal[OF MAX_RETRIES_nonneg])
     (simp_all add: download_doc_body_def download_doc_result_def retryable_failure_def
        notes_retryable_exceptions_def)

text \<open>With nothing downloaded, or an empty text, the content stage is the raw-entries path.\<close>

lemma transcript_content_fallback:
  assumes "transcript_download client record tr s = Some (Inr (transcript_text, doc_url), s')"
    and "transcript_text = None \<or> transcript_text = Some []"
    and "state tr = FILE_GENERATED"
  shows "transcript_content client a record tr s = raw_entries_outcome client a record tr doc_url s'"
proof (cases "get_transcript_entries client (transcript_name tr) s'")
  case None
  with assms show ?thesis
    by (auto simp: transcript_content_def transcript_fallback_def raw_entries_outcome_def)
next
  case (Some p)
  obtain out s'' calls sleeps where p: "p = (out, s'', calls, sleeps)" by (cases p)
  show ?thesis
  proof (cases out)
    case (Returns entries)
    with assms Some p show ?thesis
      by (auto simp: transcript_content_def transcript_fallback_def raw_entries_outcome_def)
  next
    case (Raises e)
    with assms Some p show ?thesis
      by (auto simp: transcript_content_def transcript_fallback_def raw_entries_outcome_def)
  qed
qed

lemma main_reaches_content:
  assumes "transcript_ready_at parse client a record tr s"
  shows "main parse client a = transcript_content client a record tr s"
  using assms unfolding transcript_ready_at_def
  by (auto simp: main_def transcript_of_record_def)

lemma notes_main_reaches_content:
  assumes "notes_ready_at parse client a record note s"
  shows "notes_main parse client a = notes_content client a record note s"
  using assms unfolding notes_ready_at_def
  by (auto simp: notes_main_def notes_of_record_def)

text \<open>
  Claim C1, as amended. When the artifact metadata reports \<open>FILE_GENERATED\<close> but names
  no document id, the notes script ends with the error \<open>notes_fetch_error\<close> without any
  further remote call, while the transcript script skips the export and takes the
  raw-entries path, whose outcome is the outcome of the run.
\<close>

theorem C1_missing_document_id:
  "(transcript_ready_at parse client a record tr s
      \<and> (docs_dest tr = None \<or> (\<exists>dd. docs_dest tr = Some dd \<and> document dd = []))
     \<longrightarrow> main parse client a = raw_entries_outcome client a record tr None s)
   \<and> (notes_ready_at parse client a record note sn
      \<and> (docsDestination note = None
          \<or> (\<exists>dd. docsDestination note = Some dd \<and> (dj_document dd = None \<or> dj_document dd = Some [])))
     \<longrightarrow> notes_main parse client a
           = Some (Failed ERROR_NOTES_FETCH_ERROR
                     [(''conference_id'', Some (conference_id_of record)),
                      (''notes_state'', Some ''FILE_GENERATED'')], sn))"
proof (intro conjI impI)
  assume h: "transcript_ready_at parse client a record tr s
      \<and> (docs_dest tr = None \<or> (\<exists>dd. docs_dest tr = Some dd \<and> document dd = []))"
  then have st: "state tr = FILE_GENERATED" by (auto simp: transcript_ready_at_def)
  from h have "transcript_download client record tr s = Some (Inr (None, None), s)"
    by (auto simp: transcript_download_def)
  then have "transcript_content client a record tr s = raw_entries_outcome client a record tr None s"
    using st by (intro transcript_content_fallback) auto
  with h show "main parse client a = raw_entries_outcome client a record tr None s"
    using main_reaches_content[of parse client a "record" tr s] by simp
next
  assume h: "notes_ready_at parse client a record note sn
      \<and> (docsDestination note = None
          \<or> (\<exists>dd. docsDestination note = Some dd \<and> (dj_document dd = None \<or> dj_document dd = Some [])))"
  then have st: "note_state note = Some ''FILE_GENERATED''" by (auto simp: notes_ready_at_def)
  from h st have "notes_content client a record note sn
           = Some (Failed ERROR_NOTES_FETCH_ERROR
                     [(''conference_id'', Some (conference_id_of record)),
                      (''notes_state'', Some ''FILE_GENERATED'')], sn)"
    by (auto simp: notes_content_def)
  with h show "notes_main parse client a
           = Some (Failed ERROR_NOTES_FETCH_ERROR
                     [(''conference_id'', Some (conference_id_of record)),
                      (''notes_state'', Some ''FILE_GENERATED'')], sn)"
    using notes_main_reaches_content[of parse client a "record" "note" sn] by simp
qed

theorem C1_missing_document_id_counterexample:
  "main example_parse no_document_client example_args
     = Some (Found \<lparr>found_meeting_code = ''abc-defg-hij'', found_conference_id = ''first'',
                    found_start_time = Some (Aware 12), found_end_time = Some (Aware 15),
                    found_state = ''FILE_GENERATED'', found_doc_id = None, found_doc_url = None,
                    found_content = ''A: hi there'' @ [CHR 0x0A, CHR 0x0A] @ ''B: yo''\<rparr>,
             [GetCredentials,
              ListConferenceRecords (transcript_filter_str ''abc-defg-hij''),
              ListTranscripts ''conferenceRecords/first'',
              ListTranscriptEntries ''conferenceRecords/first/transcripts/t1'' None])"
  by code_simp

lemma example_parse_timestamps:
  "parse_timestamps example_parse example_args = Inr (Aware 10, Aware 20)"
  by code_simp

lemma no_document_transcript_ready:
  "transcript_ready_at example_parse no_document_client example_args (example_records ! 1)
     (example_transcript\<lparr>docs_dest := None\<rparr>)
     [GetCredentials, ListConferenceRecords (transcript_filter_str ''abc-defg-hij''),
      ListTranscripts ''conferenceRecords/first'']"
proof -
  have 1: "authenticate no_document_client [] = (None, [GetCredentials])" by code_simp
  have 2: "find_conference_record no_document_client (arg_meeting_code example_args) (Aware 10) (Aware 20)
             [GetCredentials]
           = Some (Returns (Some (example_records ! 1)),
                   [GetCredentials, ListConferenceRecords (transcript_filter_str ''abc-defg-hij'')], 1, [])"
    by code_simp
  have 3: "get_transcript_metadata no_document_client (record_name (example_records ! 1))
             [GetCredentials, ListConferenceRecords (transcript_filter_str ''abc-defg-hij'')]
           = Some (Returns (Some (example_transcript\<lparr>docs_dest := None\<rparr>)),
                   [GetCredentials, ListConferenceRecords (transcript_filter_str ''abc-defg-hij''),
                    ListTranscripts ''conferenceRecords/first''], 1, [])"
    by code_simp
  have 4: "state (example_transcript\<lparr>docs_dest := None\<rparr>) = FILE_GENERATED" by code_simp
  from example_parse_timestamps 1 2 3 4 show ?thesis
    unfolding transcript_ready_at_def by blast
qed

lemma no_document_notes_ready:
  "notes_ready_at example_parse no_document_client example_args (example_records ! 1)
     (example_note\<lparr>docsDestination := None\<rparr>)
     [GetCredentials, ListConferenceRecords (notes_filter_str ''abc-defg-hij''),
      GetSmartNotes (smart_notes_url ''first'')]"
proof -
  have 1: "authenticate no_document_client [] = (None, [GetCredentials])" by code_simp
  have 2: "notes_find_conference_record no_document_client (arg_meeting_code example_args) (Aware 10) (Aware 20)
             [GetCredentials]
           = Some (Returns (Some (example_records ! 1)),
                   [GetCredentials, ListConferenceRecords (notes_filter_str ''abc-defg-hij'')], 1, [])"
    by code_simp
  have 3: "get_smart_notes_metadata no_document_client (conference_id_of (example_records ! 1))
             [GetCredentials, ListConferenceRecords (notes_filter_str ''abc-defg-hij'')]
           = (Returns \<lparr>d_error = None, d_message = None,
                       d_smartNotes = Some [example_note\<lparr>docsDestination := None\<rparr>]\<rparr>,
              [GetCredentials, ListConferenceRecords (notes_filter_str ''abc-defg-hij''),
               GetSmartNotes (smart_notes_url ''first'')])"
    by code_simp
  have 4: "note_state (example_note\<lparr>docsDestination := None\<rparr>) = Some ''FILE_GENERATED''" by code_simp
  show ?thesis
    unfolding notes_ready_at_def
    apply (rule exI[of _ "Aware 10"], rule exI[of _ "Aware 20"], rule exI[of _ "[GetCredentials]"])
    apply (rule exI[of _ "[GetCredentials, ListConferenceRecords (notes_filter_str ''abc-defg-hij'')]"])
    apply (rule exI[of _ 1], rule exI[of _ "[]"])
    apply (rule exI[of _ "\<lparr>d_error = None, d_message = None,
                       d_smartNotes = Some [example_note\<lparr>docsDestination := None\<rparr>]\<rparr>"])
    apply (rule exI[of _ "[]"])
    using example_parse_timestamps 1 2 3 4 by simp
qed

theorem C1_missing_document_id_witness:
  "transcript_ready_at example_parse no_document_client example_args (example_records ! 1)
     (example_transcript\<lparr>docs_dest := None\<rparr>)
     [GetCredentials, ListConferenceRecords (transcript_filter_str ''abc-defg-hij''),
      ListTranscripts ''conferenceRecords/first'']
   \<and> main example_parse no_document_client example_args
       = raw_entries_outcome no_document_client example_args (example_records ! 1)
           (example_transcript\<lparr>docs_dest := None\<rparr>) None
           [GetCredentials, ListConferenceRecords (transcript_filter_str ''abc-defg-hij''),
            ListTranscripts ''conferenceRecords/first'']
   \<and> notes_ready_at example_parse no_document_client example_args (example_records ! 1)
     (example_note\<lparr>docsDestination := None\<rparr>)
     [GetCredentials, ListConferenceRecords (notes_filter_str ''abc-defg-hij''),
      GetSmartNotes (smart_notes_url ''first'')]
   \<and> notes_main example_parse no_document_client example_args
       = Some (Failed ERROR_NOTES_FETCH_ERROR
                     [(''conference_id'', Some (conference_id_of (example_records ! 1))),
                      (''notes_state'', Some ''FILE_GENERATED'')],
               [GetCredentials, ListConferenceRecords (notes_filter_str ''abc-defg-hij''),
                GetSmartNotes (smart_notes_url ''first'')])"
proof -
  have d: "docs_dest (example_transcript\<lparr>docs_dest := None\<rparr>) = None" by simp
  have n: "docsDestination (example_note\<lparr>docsDestination := None\<rparr>) = None" by simp
  from C1_missing_document_id[of example_parse no_document_client example_args "example_records ! 1"
      "example_transcript\<lparr>docs_dest := None\<rparr>"
      "[GetCredentials, ListConferenceRecords (transcript_filter_str ''abc-defg-hij''),
        ListTranscripts ''conferenceRecords/first'']"
      "example_note\<lparr>docsDestination := None\<rparr>"
      "[GetCredentials, ListConferenceRecords (notes_filter_str ''abc-defg-hij''),
        GetSmartNotes (smart_notes_url ''first'')]"]
    no_document_transcript_ready no_document_notes_ready d n
  show ?thesis by blast
qed

lemma empty_window_result:
  assumes "y < x"
  shows "find_conference_record_result (Returns records) (Aware x) (Aware y) = Returns None"
proof -
  have "filter (in_window x y) records = []"
    using assms by (auto simp: filter_empty_conv in_window_def split: option.splits)
  then show ?thesis
    by (simp add: find_conference_record_result_def matching_loop_filter)
qed

lemma authenticate_ok:
  "get_credentials client [] = Returns u \<Longrightarrow> authenticate client [] = (None, [GetCredentials])"
  by (simp add: authenticate_def)

text \<open>
  Claim C2, as amended. An empty time window (\<open>before < after\<close>) is not rejected up
  front: either script authenticates and sends its session query as for any other window.
  When that query is answered with a list of sessions, none of them can lie in the empty
  window, and the run ends, after these two remote calls, with the error
  \<open>no_conference_record\<close>.
\<close>

theorem C2_empty_window_queries:
  assumes "parse_timestamps parse a = Inr (Aware x, Aware y)" and "y < x"
    and "get_credentials client [] = Returns ()"
    and "list_conference_records client [GetCredentials] (transcript_filter_str (arg_meeting_code a))
           = Returns records"
    and "list_conference_records client [GetCredentials] (notes_filter_str (arg_meeting_code a))
           = Returns nrecords"
  shows "main parse client a
           = Some (Failed ERROR_NO_CONFERENCE [(''meeting_code'', Some (arg_meeting_code a))],
                   [GetCredentials, ListConferenceRecords (transcript_filter_str (arg_meeting_code a))])
       \<and> notes_main parse client a
           = Some (Failed ERROR_NO_CONFERENCE [(''meeting_code'', Some (arg_meeting_code a))],
                   [GetCredentials, ListConferenceRecords (notes_filter_str (arg_meeting_code a))])"
proof
  have "find_conference_record client (arg_meeting_code a) (Aware x) (Aware y) [GetCredentials]
          = Some (Returns None,
                  [GetCredentials] @ [ListConferenceRecords (transcript_filter_str (arg_meeting_code a))], 1, [])"
    by (rule find_conference_record_first_answer) (simp add: assms(4) empty_window_result[OF assms(2)])
  then show "main parse client a
           = Some (Failed ERROR_NO_CONFERENCE [(''meeting_code'', Some (arg_meeting_code a))],
                   [GetCredentials, ListConferenceRecords (transcript_filter_str (arg_meeting_code a))])"
    by (simp add: main_def assms(1) authenticate_ok[OF assms(3)])
next
  have "notes_find_conference_record client (arg_meeting_code a) (Aware x) (Aware y) [GetCredentials]
          = Some (Returns None,
                  [GetCredentials] @ [ListConferenceRecords (notes_filter_str (arg_meeting_code a))], 1, [])"
    by (rule notes_find_conference_record_first_answer) (simp add: assms(5) empty_window_result[OF assms(2)])
  then show "notes_main parse client a
           = Some (Failed ERROR_NO_CONFERENCE [(''meeting_code'', Some (arg_meeting_code a))],
                   [GetCredentials, ListConferenceRecords (notes_filter_str (arg_meeting_code a))])"
    by (simp add: notes_main_def assms(1) authenticate_ok[OF assms(3)])
qed

theorem C2_empty_window_counterexample:
  "parse_timestamps example_parse empty_window_args = Inr (Aware 10, Aware 5)
   \<and> main example_parse example_client empty_window_args
       = Some (Failed ''no_conference_record'' [(''meeting_code'', Some ''abc-defg-hij'')],
               [GetCredentials, ListConferenceRecords (transcript_filter_str ''abc-defg-hij'')])"
  by code_simp

theorem C2_empty_window_queries_witness:
  "parse_timestamps example_parse empty_window_args = Inr (Aware 10, Aware 5)
   \<and> main example_parse example_client empty_window_args
       = Some (Failed ERROR_NO_CONFERENCE [(''meeting_code'', Some (arg_meeting_code empty_window_args))],
               [GetCredentials,
                ListConferenceRecords (transcript_filter_str (arg_meeting_code empty_window_args))])
   \<and> notes_main example_parse example_client empty_window_args
       = Some (Failed ERROR_NO_CONFERENCE [(''meeting_code'', Some (arg_meeting_code empty_window_args))],
               [GetCredentials,
                ListConferenceRecords (notes_filter_str (arg_meeting_code empty_window_args))])"
proof -
  have p: "parse_timestamps example_parse empty_window_args = Inr (Aware 10, Aware 5)" by code_simp
  have lt: "(5::int) < 10" by simp
  have c: "get_credentials example_client [] = Returns ()" by (simp add: example_client_def)
  have q: "list_conference_records example_client [GetCredentials]
             (transcript_filter_str (arg_meeting_code empty_window_args)) = Returns example_records"
    by (simp add: example_client_def)
  have qn: "list_conference_records example_client [GetCredentials]
             (notes_filter_str (arg_meeting_code empty_window_args)) = Returns example_records"
    by (simp add: example_client_def)
  from C2_empty_window_queries[OF p lt c q qn] p show ?thesis by simp
qed







lemma transcript_download_404:
  assumes "docs_dest tr = Some dd" "document dd \<noteq> []"
    "files_export client s (document dd) = Raises (HttpError 404)"
  shows "transcript_download client record tr s
           = Some (Inr (None, Some (doc_url_of (export_uri dd) (document dd))), s @ [FilesExport (document dd)])"
  using assms
  by (simp add: transcript_download_def download_transcript_doc_404 doc_url_of_def Let_def)

lemma transcript_download_403:
  assumes "docs_dest tr = Some dd" "document dd \<noteq> []"
    "files_export client s (document dd) = Raises (HttpError 403)"
  shows "transcript_download client record tr s
           = Some (Inl (Failed ERROR_DRIVE_ACCESS_DENIED
                          [(''conference_id'', Some (conference_id_of record)),
                           (''doc_url'', Some (doc_url_of (export_uri dd) (document dd)))]),
                   s @ [FilesExport (document dd)])"
  using assms
  by (simp add: transcript_download_def download_transcript_doc_403 doc_url_of_def Let_def)

lemma transcript_download_Returns:
  assumes "docs_dest tr = Some dd" "document dd \<noteq> []"
    "files_export client s (document dd) = Returns content"
  shows "transcript_download client record tr s
           = Some (Inr (Some content, Some (doc_url_of (export_uri dd) (document dd))),
                   s @ [FilesExport (document dd)])"
  using assms
  by (simp add: transcript_download_def download_transcript_doc_Returns doc_url_of_def Let_def)

lemma notes_content_404:
  assumes "docsDestination note = Some nd" "dj_document nd = Some doc_id" "doc_id \<noteq> []"
    "files_export client s doc_id = Raises (HttpError 404)"
  shows "notes_content client a record note s
           = Some (Failed ERROR_NOTES_FETCH_ERROR
                     [(''conference_id'', Some (conference_id_of record)),
                      (''doc_url'', Some (doc_url_of (case dj_exportUri nd of None \<Rightarrow> [] | Some u \<Rightarrow> u) doc_id))],
                   s @ [FilesExport doc_id])"
  using assms
  by (simp add: notes_content_def download_notes_document_404 doc_url_of_def Let_def)

lemma notes_content_403:
  assumes "docsDestination note = Some nd" "dj_document nd = Some doc_id" "doc_id \<noteq> []"
    "files_export client s doc_id = Raises (HttpError 403)"
  shows "notes_content client a record note s
           = Some (Failed ERROR_DRIVE_ACCESS_DENIED
                     [(''conference_id'', Some (conference_id_of record)),
                      (''doc_url'', Some (doc_url_of (case dj_exportUri nd of None \<Rightarrow> [] | Some u \<Rightarrow> u) doc_id))],
                   s @ [FilesExport doc_id])"
  using assms
  by (simp add: notes_content_def download_notes_document_403 doc_url_of_def Let_def)

lemma transcript_ready_state: "transcript_ready_at parse client a record tr s \<Longrightarrow> state tr = FILE_GENERATED"
  by (auto simp: transcript_ready_at_def)

text \<open>
  Claim C7. Once the artifact is ready and names a document: when the export of the
  document fails with not-found (HTTP 404), the transcript script goes on to the paginated
  raw entries, whose outcome is the outcome of the run, while the notes script ends with
  the error \<open>notes_fetch_error\<close> right after the export call; when the export fails with
  access denied (HTTP 403), both scripts end with \<open>drive_access_denied\<close> right after the
  export call, and no raw entries are asked for.
\<close>

theorem C7_export_failure_paths:
  "(transcript_ready_at parse client a record tr s
      \<and> docs_dest tr = Some dd \<and> document dd \<noteq> []
      \<and> files_export client s (document dd) = Raises (HttpError 404)
     \<longrightarrow> main parse client a
           = raw_entries_outcome client a record tr (Some (doc_url_of (export_uri dd) (document dd)))
               (s @ [FilesExport (document dd)]))
   \<and> (notes_ready_at parse client a record note sn
      \<and> docsDestination note = Some nd \<and> dj_document nd = Some doc_id \<and> doc_id \<noteq> []
      \<and> files_export client sn doc_id = Raises (HttpError 404)
     \<longrightarrow> notes_main parse client a
           = Some (Failed ERROR_NOTES_FETCH_ERROR
                     [(''conference_id'', Some (conference_id_of record)),
                      (''doc_url'', Some (doc_url_of (case dj_exportUri nd of None \<Rightarrow> [] | Some u \<Rightarrow> u) doc_id))],
                   sn @ [FilesExport doc_id]))
   \<and> (transcript_ready_at parse client a record tr s
      \<and> docs_dest tr = Some dd \<and> document dd \<noteq> []
      \<and> files_export client s (document dd) = Raises (HttpError 403)
     \<longrightarrow> main parse client a
           = Some (Failed ERROR_DRIVE_ACCESS_DENIED
                     [(''conference_id'', Some (conference_id_of record)),
                      (''doc_url'', Some (doc_url_of (export_uri dd) (document dd)))],
                   s @ [FilesExport (document dd)]))
   \<and> (notes_ready_at parse client a record note sn
      \<and> docsDestination note = Some nd \<and> dj_document nd = Some doc_id \<and> doc_id \<noteq> []
      \<and> files_export client sn doc_id = Raises (HttpError 403)
     \<longrightarrow> notes_main parse client a
           = Some (Failed ERROR_DRIVE_ACCESS_DENIED
                     [(''conference_id'', Some (conference_id_of record)),
                      (''doc_url'', Some (doc_url_of (case dj_exportUri nd of None \<Rightarrow> [] | Some u \<Rightarrow> u) doc_id))],
                   sn @ [FilesExport doc_id]))"
proof (intro conjI impI)
  assume h: "transcript_ready_at parse client a record tr s
      \<and> docs_dest tr = Some dd \<and> document dd \<noteq> []
      \<and> files_export client s (document dd) = Raises (HttpError 404)"
  then have d: "transcript_download client record tr s
           = Some (Inr (None, Some (doc_url_of (export_uri dd) (document dd))), s @ [FilesExport (document dd)])"
    by (intro transcript_download_404) auto
  have "transcript_content client a record tr s
          = raw_entries_outcome client a record tr (Some (doc_url_of (export_uri dd) (document dd)))
               (s @ [FilesExport (document dd)])"
    using d h by (intro transcript_content_fallback) (auto dest: transcript_ready_state)
  then show "main parse client a
           = raw_entries_outcome client a record tr (Some (doc_url_of (export_uri dd) (document dd)))
               (s @ [FilesExport (document dd)])"
    using h main_reaches_content[of parse client a "record" tr s] by simp
next
  assume h: "notes_ready_at parse client a record note sn
      \<and> docsDestination note = Some nd \<and> dj_document nd = Some doc_id \<and> doc_id \<noteq> []
      \<and> files_export client sn doc_id = Raises (HttpError 404)"
  then show "notes_main parse client a
           = Some (Failed ERROR_NOTES_FETCH_ERROR
                     [(''conference_id'', Some (conference_id_of record)),
                      (''doc_url'', Some (doc_url_of (case dj_exportUri nd of None \<Rightarrow> [] | Some u \<Rightarrow> u) doc_id))],
                   sn @ [FilesExport doc_id])"
    using notes_main_reaches_content[of parse client a "record" "note" sn]
      notes_content_404[of "note" nd doc_id client sn a "record"] by simp
next
  assume h: "transcript_ready_at parse client a record tr s
      \<and> docs_dest tr = Some dd \<and> document dd \<noteq> []
      \<and> files_export client s (document dd) = Raises (HttpError 403)"
  then have "transcript_download client record tr s
           = Some (Inl (Failed ERROR_DRIVE_ACCESS_DENIED
                          [(''conference_id'', Some (conference_id_of record)),
                           (''doc_url'', Some (doc_url_of (export_uri dd) (document dd)))]),
                   s @ [FilesExport (document dd)])"
    by (intro transcript_download_403) auto
  then have "transcript_content client a record tr s
               = Some (Failed ERROR_DRIVE_ACCESS_DENIED
                     [(''conference_id'', Some (conference_id_of record)),
                      (''doc_url'', Some (doc_url_of (export_uri dd) (document dd)))],
                   s @ [FilesExport (document dd)])"
    by (simp add: transcript_content_def)
  then show "main parse client a
           = Some (Failed ERROR_DRIVE_ACCESS_DENIED
                     [(''conference_id'', Some (conference_id_of record)),
                      (''doc_url'', Some (doc_url_of (export_uri dd) (document dd)))],
                   s @ [FilesExport (document dd)])"
    using h main_reaches_content[of parse client a "record" tr s] by simp
next
  assume h: "notes_ready_at parse client a record note sn
      \<and> docsDestination note = Some nd \<and> dj_document nd = Some doc_id \<and> doc_id \<noteq> []
      \<and> files_export client sn doc_id = Raises (HttpError 403)"
  then show "notes_main parse client a
           = Some (Failed ERROR_DRIVE_ACCESS_DENIED
                     [(''conference_id'', Some (conference_id_of record)),
                      (''doc_url'', Some (doc_url_of (case dj_exportUri nd of None \<Rightarrow> [] | Some u \<Rightarrow> u) doc_id))],
                   sn @ [FilesExport doc_id])"
    using notes_main_reaches_content[of parse client a "record" "note" sn]
      notes_content_403[of "note" nd doc_id client sn a "record"] by simp
qed

lemma example_record_fields:
  "record_name (example_records ! 1) = ''conferenceRecords/first''"
  "conference_id_of (example_records ! 1) = ''first''"
  "start_time (example_records ! 1) = Some (Aware 12)"
  "end_time (example_records ! 1) = Some (Aware 15)"
  "record_name (example_records ! Suc 0) = ''conferenceRecords/first''"
  "conference_id_of (example_records ! Suc 0) = ''first''"
  "start_time (example_records ! Suc 0) = Some (Aware 12)"
  "end_time (example_records ! Suc 0) = Some (Aware 15)"
  by (simp_all add: example_records_def conference_id_of_def)

lemma example_transcript_ready:
  "transcript_ready_at example_parse (example_client\<lparr>files_export := f\<rparr>) example_args
     (example_records ! 1) example_transcript
     [GetCredentials, ListConferenceRecords (transcript_filter_str ''abc-defg-hij''),
      ListTranscripts ''conferenceRecords/first'']"
proof -
  let ?c = "example_client\<lparr>files_export := f\<rparr>"
  have 1: "authenticate ?c [] = (None, [GetCredentials])"
    by (simp add: authenticate_def example_client_def)
  have 2: "find_conference_record ?c (arg_meeting_code example_args) (Aware 10) (Aware 20) [GetCredentials]
           = Some (Returns (Some (example_records ! 1)),
                   [GetCredentials, ListConferenceRecords (transcript_filter_str ''abc-defg-hij'')], 1, [])"
    using find_conference_record_first_answer[of ?c "[GetCredentials]" "''abc-defg-hij''" "Aware 10" "Aware 20"
            "Some (example_records ! 1)"]
    by (simp add: example_client_def example_find example_args_def)
  have 3: "get_transcript_metadata ?c (record_name (example_records ! 1))
             [GetCredentials, ListConferenceRecords (transcript_filter_str ''abc-defg-hij'')]
           = Some (Returns (Some example_transcript),
                   [GetCredentials, ListConferenceRecords (transcript_filter_str ''abc-defg-hij''),
                    ListTranscripts ''conferenceRecords/first''], 1, [])"
    unfolding get_transcript_metadata_def
    using retry_with_backoff_first_Returns[OF MAX_RETRIES_nonneg,
        of "\<lambda>s. Some (get_transcript_metadata_body ?c (record_name (example_records ! 1)) s)"
           "[GetCredentials, ListConferenceRecords (transcript_filter_str ''abc-defg-hij'')]"
           "Some example_transcript"
           "[GetCredentials, ListConferenceRecords (transcript_filter_str ''abc-defg-hij''),
                    ListTranscripts ''conferenceRecords/first'']"]
    by (simp add: get_transcript_metadata_body_def get_transcript_metadata_result_def
          example_client_def example_record_fields)
  have 4: "state example_transcript = FILE_GENERATED" by (simp add: example_transcript_def)
  from example_parse_timestamps 1 2 3 4 show ?thesis
    unfolding transcript_ready_at_def by blast
qed

lemma example_notes_ready:
  "notes_ready_at example_parse (example_client\<lparr>files_export := f\<rparr>) example_args
     (example_records ! 1) example_note
     [GetCredentials, ListConferenceRecords (notes_filter_str ''abc-defg-hij''),
      GetSmartNotes (smart_notes_url ''first'')]"
proof -
  let ?c = "example_client\<lparr>files_export := f\<rparr>"
  have 1: "authenticate ?c [] = (None, [GetCredentials])"
    by (simp add: authenticate_def example_client_def)
  have 2: "notes_find_conference_record ?c (arg_meeting_code example_args) (Aware 10) (Aware 20) [GetCredentials]
           = Some (Returns (Some (example_records ! 1)),
                   [GetCredentials, ListConferenceRecords (notes_filter_str ''abc-defg-hij'')], 1, [])"
    using notes_find_conference_record_first_answer[of ?c "[GetCredentials]" "''abc-defg-hij''" "Aware 10" "Aware 20"
            "Some (example_records ! 1)"]
    by (simp add: example_client_def example_find example_args_def)
  have 3: "get_smart_notes_metadata ?c (conference_id_of (example_records ! 1))
             [GetCredentials, ListConferenceRecords (notes_filter_str ''abc-defg-hij'')]
           = (Returns \<lparr>d_error = None, d_message = None, d_smartNotes = Some [example_note]\<rparr>,
              [GetCredentials, ListConferenceRecords (notes_filter_str ''abc-defg-hij''),
               GetSmartNotes (smart_notes_url ''first'')])"
    by (simp add: get_smart_notes_metadata_def smart_notes_response_def response_json_def
          example_client_def example_record_fields)
  have 4: "note_state example_note = Some ''FILE_GENERATED''" by (simp add: example_note_def)
  show ?thesis
    unfolding notes_ready_at_def
    apply (rule exI[of _ "Aware 10"], rule exI[of _ "Aware 20"], rule exI[of _ "[GetCredentials]"])
    apply (rule exI[of _ "[GetCredentials, ListConferenceRecords (notes_filter_str ''abc-defg-hij'')]"])
    apply (rule exI[of _ 1], rule exI[of _ "[]"])
    apply (rule exI[of _ "\<lparr>d_error = None, d_message = None, d_smartNotes = Some [example_note]\<rparr>"])
    apply (rule exI[of _ "[]"])
    using example_parse_timestamps 1 2 3 4 by simp
qed

theorem C7_export_failure_paths_witness:
  "main example_parse export_not_found_client example_args
     = Some (Found \<lparr>found_meeting_code = ''abc-defg-hij'', found_conference_id = ''first'',
                    found_start_time = Some (Aware 12), found_end_time = Some (Aware 15),
                    found_state = ''FILE_GENERATED'', found_doc_id = None,
                    found_doc_url = Some ''https://docs.google.com/document/d/doc1/edit'',
                    found_content = ''A: hi there'' @ [CHR 0x0A, CHR 0x0A] @ ''B: yo''\<rparr>,
             [GetCredentials, ListConferenceRecords (transcript_filter_str ''abc-defg-hij''),
              ListTranscripts ''conferenceRecords/first'', FilesExport ''doc1'',
              ListTranscriptEntries ''conferenceRecords/first/transcripts/t1'' None])
   \<and> notes_main example_parse export_not_found_client example_args
     = Some (Failed ''notes_fetch_error''
               [(''conference_id'', Some ''first''),
                (''doc_url'', Some ''https://docs.google.com/document/d/doc2/edit'')],
             [GetCredentials, ListConferenceRecords (notes_filter_str ''abc-defg-hij''),
              GetSmartNotes (smart_notes_url ''first''), FilesExport ''doc2''])
   \<and> main example_parse export_denied_client example_args
     = Some (Failed ''drive_access_denied''
               [(''conference_id'', Some ''first''),
                (''doc_url'', Some ''https://docs.google.com/document/d/doc1/edit'')],
             [GetCredentials, ListConferenceRecords (transcript_filter_str ''abc-defg-hij''),
              ListTranscripts ''conferenceRecords/first'', FilesExport ''doc1''])
   \<and> notes_main example_parse export_denied_client example_args
     = Some (Failed ''drive_access_denied''
               [(''conference_id'', Some ''first''),
                (''doc_url'', Some ''https://docs.google.com/document/d/doc2/edit'')],
             [GetCredentials, ListConferenceRecords (notes_filter_str ''abc-defg-hij''),
              GetSmartNotes (smart_notes_url ''first''), FilesExport ''doc2''])"
proof -
  let ?s = "[GetCredentials, ListConferenceRecords (transcript_filter_str ''abc-defg-hij''),
             ListTranscripts ''conferenceRecords/first'']"
  let ?sn = "[GetCredentials, ListConferenceRecords (notes_filter_str ''abc-defg-hij''),
              GetSmartNotes (smart_notes_url ''first'')]"
  let ?dd = "\<lparr>document = ''doc1'', export_uri = ''''\<rparr>"
  let ?nd = "\<lparr>dj_document = Some ''doc2'', dj_exportUri = None\<rparr>"
  have tr: "docs_dest example_transcript = Some ?dd" "document ?dd \<noteq> []"
    by (simp_all add: example_transcript_def)
  have nt: "docsDestination example_note = Some ?nd" "dj_document ?nd = Some ''doc2''" "''doc2'' \<noteq> []"
    by (simp_all add: example_note_def)
  have url: "doc_url_of [] ''doc1'' = ''https://docs.google.com/document/d/doc1/edit''"
    "doc_url_of [] ''doc2'' = ''https://docs.google.com/document/d/doc2/edit''"
    by (simp_all add: doc_url_of_def py_or_def)
  have nf: "files_export export_not_found_client ?s (document ?dd) = Raises (HttpError 404)"
    "files_export export_not_found_client ?sn ''doc2'' = Raises (HttpError 404)"
    by (simp_all add: export_not_found_client_def)
  have dn: "files_export export_denied_client ?s (document ?dd) = Raises (HttpError 403)"
    "files_export export_denied_client ?sn ''doc2'' = Raises (HttpError 403)"
    by (simp_all add: export_denied_client_def)
  have rt: "transcript_ready_at example_parse export_not_found_client example_args
              (example_records ! 1) example_transcript ?s"
           "transcript_ready_at example_parse export_denied_client example_args
              (example_records ! 1) example_transcript ?s"
    unfolding export_not_found_client_def export_denied_client_def
    by (rule example_transcript_ready)+
  have rn: "notes_ready_at example_parse export_not_found_client example_args
              (example_records ! 1) example_note ?sn"
           "notes_ready_at example_parse export_denied_client example_args
              (example_records ! 1) example_note ?sn"
    unfolding export_not_found_client_def export_denied_client_def
    by (rule example_notes_ready)+
  have fb: "raw_entries_outcome export_not_found_client example_args (example_records ! 1) example_transcript
              (Some ''https://docs.google.com/document/d/doc1/edit'') (?s @ [FilesExport ''doc1''])
     = Some (Found \<lparr>found_meeting_code = ''abc-defg-hij'', found_conference_id = ''first'',
                    found_start_time = Some (Aware 12), found_end_time = Some (Aware 15),
                    found_state = ''FILE_GENERATED'', found_doc_id = None,
                    found_doc_url = Some ''https://docs.google.com/document/d/doc1/edit'',
                    found_content = ''A: hi there'' @ [CHR 0x0A, CHR 0x0A] @ ''B: yo''\<rparr>,
             [GetCredentials, ListConferenceRecords (transcript_filter_str ''abc-defg-hij''),
              ListTranscripts ''conferenceRecords/first'', FilesExport ''doc1'',
              ListTranscriptEntries ''conferenceRecords/first/transcripts/t1'' None])"
    by code_simp
  note nfc = C7_export_failure_paths[of example_parse export_not_found_client example_args
      "example_records ! 1" example_transcript ?s ?dd example_note ?sn ?nd "''doc2''"]
  note dnc = C7_export_failure_paths[of example_parse export_denied_client example_args
      "example_records ! 1" example_transcript ?s ?dd example_note ?sn ?nd "''doc2''"]
  have a: "main example_parse export_not_found_client example_args
            = raw_entries_outcome export_not_found_client example_args (example_records ! 1) example_transcript
              (Some (doc_url_of (export_uri ?dd) (document ?dd))) (?s @ [FilesExport (document ?dd)])"
    using nfc rt(1) tr nf(1) by blast
  have b: "notes_main example_parse export_not_found_client example_args
           = Some (Failed ERROR_NOTES_FETCH_ERROR
                     [(''conference_id'', Some (conference_id_of (example_records ! 1))),
                      (''doc_url'', Some (doc_url_of (case dj_exportUri ?nd of None \<Rightarrow> [] | Some u \<Rightarrow> u) ''doc2''))],
                   ?sn @ [FilesExport ''doc2''])"
    using nfc rn(1) nt nf(2) by blast
  have c: "main example_parse export_denied_client example_args
           = Some (Failed ERROR_DRIVE_ACCESS_DENIED
                     [(''conference_id'', Some (conference_id_of (example_records ! 1))),
                      (''doc_url'', Some (doc_url_of (export_uri ?dd) (document ?dd)))],
                   ?s @ [FilesExport (document ?dd)])"
    using dnc rt(2) tr dn(1) by blast
  have d: "notes_main example_parse export_denied_client example_args
           = Some (Failed ERROR_DRIVE_ACCESS_DENIED
                     [(''conference_id'', Some (conference_id_of (example_records ! 1))),
                      (''doc_url'', Some (doc_url_of (case dj_exportUri ?nd of None \<Rightarrow> [] | Some u \<Rightarrow> u) ''doc2''))],
                   ?sn @ [FilesExport ''doc2''])"
    using dnc rn(2) nt dn(2) by blast
  from a fb have a': "main example_parse export_not_found_client example_args
     = Some (Found \<lparr>found_meeting_code = ''abc-defg-hij'', found_conference_id = ''first'',
                    found_start_time = Some (Aware 12), found_end_time = Some (Aware 15),
                    found_state = ''FILE_GENERATED'', found_doc_id = None,
                    found_doc_url = Some ''https://docs.google.com/document/d/doc1/edit'',
                    found_content = ''A: hi there'' @ [CHR 0x0A, CHR 0x0A] @ ''B: yo''\<rparr>,
             [GetCredentials, ListConferenceRecords (transcript_filter_str ''abc-defg-hij''),
              ListTranscripts ''conferenceRecords/first'', FilesExport ''doc1'',
              ListTranscriptEntries ''conferenceRecords/first/transcripts/t1'' None])"
    by (simp add: url)
  from a' b c d show ?thesis
    by (simp add: url example_record_fields ERROR_NOTES_FETCH_ERROR_def ERROR_DRIVE_ACCESS_DENIED_def)
qed

lemma join_first_nonempty: "x \<noteq> [] \<Longrightarrow> join sep (x # xs) \<noteq> []"
  by (cases xs) auto

lemma format_entries_nonempty:
  assumes "entries \<noteq> []"
  shows "format_entries_as_text entries \<noteq> []"
proof -
  from assms obtain e es where e: "entries = e # es" by (cases entries) auto
  have "spec_groups (e # es) \<noteq> []" by (auto split: list.splits)
  then obtain g gs where g: "spec_groups (e # es) = g # gs" by (cases "spec_groups (e # es)") auto
  have "spec_paragraph g \<noteq> []" by (simp add: spec_paragraph_def)
  then have "join [CHR 0x0A, CHR 0x0A] (map spec_paragraph (g # gs)) \<noteq> []"
    by (simp add: join_first_nonempty)
  with g e show ?thesis
    by (simp add: format_entries_refines spec_reconstruct_def)
qed

lemma transcript_fallback_content:
  "transcript_fallback client record tr transcript_text s = Some (Inr content, s') \<Longrightarrow> content \<noteq> []"
  by (auto simp: transcript_fallback_def format_entries_nonempty
        split: option.splits outcome.splits if_splits prod.splits)

lemma transcript_download_Inl:
  "transcript_download client record tr s = Some (Inl r, s') \<Longrightarrow> \<exists>code ex. r = Failed code ex"
  by (auto simp: transcript_download_def Let_def
        split: option.splits outcome.splits if_splits prod.splits)

lemma transcript_fallback_Inl:
  "transcript_fallback client record tr transcript_text s = Some (Inl r, s') \<Longrightarrow> \<exists>code ex. r = Failed code ex"
  by (auto simp: transcript_fallback_def
        split: option.splits outcome.splits if_splits prod.splits)

lemma transcript_content_Found:
  assumes "transcript_content client a record tr s = Some (Found d, s')"
  shows "found_content d \<noteq> []"
proof -
  from assms obtain transcript_text doc_url s1 content where
    "transcript_fallback client record tr transcript_text s1 = Some (Inr content, s')"
    "found_content d = content"
    by (auto simp: transcript_content_def split: option.splits sum.splits prod.splits
          dest: transcript_download_Inl transcript_fallback_Inl)
  then show ?thesis by (auto dest: transcript_fallback_content)
qed

lemma transcript_of_record_Found:
  "transcript_of_record client a record s = Some (Found d, s') \<Longrightarrow> found_content d \<noteq> []"
  by (auto simp: transcript_of_record_def split: option.splits outcome.splits prod.splits if_splits
        dest: transcript_content_Found)

lemma main_Found:
  "main parse client a = Some (Found d, s') \<Longrightarrow> found_content d \<noteq> []"
  by (auto simp: main_def authenticate_def parse_timestamps_def
        split: option.splits outcome.splits prod.splits if_splits sum.splits
        dest: transcript_of_record_Found)

text \<open>
  Claim C10. When the artifact is ready and the export of its document succeeds with the
  empty string, the transcript script does not return it: the run's outcome is that of the
  raw-entries path, entered right after the export call. The empty-content error of that
  path means that the paginated fetch returned no entry at all. And whatever the services
  answer, a success response of the transcript script never carries an empty transcript.
\<close>

theorem C10_empty_export_falls_back:
  "(transcript_ready_at parse client a record tr s
      \<and> docs_dest tr = Some dd \<and> document dd \<noteq> []
      \<and> files_export client s (document dd) = Returns []
     \<longrightarrow> main parse client a
           = raw_entries_outcome client a record tr (Some (doc_url_of (export_uri dd) (document dd)))
               (s @ [FilesExport (document dd)]))
   \<and> (\<forall>doc_url s0 ex s'.
        raw_entries_outcome client a record tr doc_url s0 = Some (Failed ERROR_TRANSCRIPT_EMPTY ex, s')
        \<longrightarrow> (\<exists>calls sleeps. get_transcript_entries client (transcript_name tr) s0
                                = Some (Returns [], s', calls, sleeps)))
   \<and> (\<forall>d s'. main parse client a = Some (Found d, s') \<longrightarrow> found_content d \<noteq> [])"
proof (intro conjI impI allI)
  assume h: "transcript_ready_at parse client a record tr s
      \<and> docs_dest tr = Some dd \<and> document dd \<noteq> []
      \<and> files_export client s (document dd) = Returns []"
  then have d: "transcript_download client record tr s
           = Some (Inr (Some [], Some (doc_url_of (export_uri dd) (document dd))),
                   s @ [FilesExport (document dd)])"
    by (intro transcript_download_Returns) auto
  have "transcript_content client a record tr s
          = raw_entries_outcome client a record tr (Some (doc_url_of (export_uri dd) (document dd)))
               (s @ [FilesExport (document dd)])"
    using d h by (intro transcript_content_fallback) (auto dest: transcript_ready_state)
  then show "main parse client a
           = raw_entries_outcome client a record tr (Some (doc_url_of (export_uri dd) (document dd)))
               (s @ [FilesExport (document dd)])"
    using h main_reaches_content[of parse client a "record" tr s] by simp
next
  fix doc_url s0 ex s'
  assume "raw_entries_outcome client a record tr doc_url s0 = Some (Failed ERROR_TRANSCRIPT_EMPTY ex, s')"
  then show "\<exists>calls sleeps. get_transcript_entries client (transcript_name tr) s0
                                = Some (Returns [], s', calls, sleeps)"
    by (auto simp: raw_entries_outcome_def ERROR_TRANSCRIPT_EMPTY_def ERROR_TRANSCRIPT_FETCH_ERROR_def
          split: option.splits outcome.splits prod.splits if_splits)
next
  fix d s'
  assume "main parse client a = Some (Found d, s')"
  then show "found_content d \<noteq> []" by (rule main_Found)
qed

lemma export_empty_no_entries_ready:
  "transcript_ready_at example_parse export_empty_no_entries_client example_args
     (example_records ! 1) example_transcript
     [GetCredentials, ListConferenceRecords (transcript_filter_str ''abc-defg-hij''),
      ListTranscripts ''conferenceRecords/first'']"
proof -
  have 1: "authenticate export_empty_no_entries_client [] = (None, [GetCredentials])" by code_simp
  have 2: "find_conference_record export_empty_no_entries_client (arg_meeting_code example_args)
             (Aware 10) (Aware 20) [GetCredentials]
           = Some (Returns (Some (example_records ! 1)),
                   [GetCredentials, ListConferenceRecords (transcript_filter_str ''abc-defg-hij'')], 1, [])"
    by code_simp
  have 3: "get_transcript_metadata export_empty_no_entries_client (record_name (example_records ! 1))
             [GetCredentials, ListConferenceRecords (transcript_filter_str ''abc-defg-hij'')]
           = Some (Returns (Some example_transcript),
                   [GetCredentials, ListConferenceRecords (transcript_filter_str ''abc-defg-hij''),
                    ListTranscripts ''conferenceRecords/first''], 1, [])"
    by code_simp
  have 4: "state example_transcript = FILE_GENERATED" by code_simp
  from example_parse_timestamps 1 2 3 4 show ?thesis
    unfolding transcript_ready_at_def by blast
qed

theorem C10_empty_export_falls_back_witness:
  "files_export export_empty_client
     [GetCredentials, ListConferenceRecords (transcript_filter_str ''abc-defg-hij''),
      ListTranscripts ''conferenceRecords/first''] ''doc1'' = Returns []
   \<and> main example_parse export_empty_client example_args
     = Some (Found \<lparr>found_meeting_code = ''abc-defg-hij'', found_conference_id = ''first'',
                    found_start_time = Some (Aware 12), found_end_time = Some (Aware 15),
                    found_state = ''FILE_GENERATED'', found_doc_id = None,
                    found_doc_url = Some ''https://docs.google.com/document/d/doc1/edit'',
                    found_content = ''A: hi there'' @ [CHR 0x0A, CHR 0x0A] @ ''B: yo''\<rparr>,
             [GetCredentials, ListConferenceRecords (transcript_filter_str ''abc-defg-hij''),
              ListTranscripts ''conferenceRecords/first'', FilesExport ''doc1'',
              ListTranscriptEntries ''conferenceRecords/first/transcripts/t1'' None])
   \<and> main example_parse export_empty_no_entries_client example_args
     = Some (Failed ''transcript_empty'' [(''conference_id'', Some ''first'')],
             [GetCredentials, ListConferenceRecords (transcript_filter_str ''abc-defg-hij''),
              ListTranscripts ''conferenceRecords/first'', FilesExport ''doc1'',
              ListTranscriptEntries ''conferenceRecords/first/transcripts/t1'' None])
   \<and> get_transcript_entries export_empty_no_entries_client ''conferenceRecords/first/transcripts/t1''
        [GetCredentials, ListConferenceRecords (transcript_filter_str ''abc-defg-hij''),
         ListTranscripts ''conferenceRecords/first'', FilesExport ''doc1'']
     = Some (Returns [],
             [GetCredentials, ListConferenceRecords (transcript_filter_str ''abc-defg-hij''),
              ListTranscripts ''conferenceRecords/first'', FilesExport ''doc1'',
              ListTranscriptEntries ''conferenceRecords/first/transcripts/t1'' None], 1, [])"
proof -
  let ?s = "[GetCredentials, ListConferenceRecords (transcript_filter_str ''abc-defg-hij''),
             ListTranscripts ''conferenceRecords/first'']"
  let ?dd = "\<lparr>document = ''doc1'', export_uri = ''''\<rparr>"
  have tr: "docs_dest example_transcript = Some ?dd" "document ?dd \<noteq> []"
    by (simp_all add: example_transcript_def)
  have url: "doc_url_of [] ''doc1'' = ''https://docs.google.com/document/d/doc1/edit''"
    by (simp add: doc_url_of_def py_or_def)
  have e1: "files_export export_empty_client ?s (document ?dd) = Returns []"
    by (simp add: export_empty_client_def)
  have e2: "files_export export_empty_no_entries_client ?s (document ?dd) = Returns []"
    by (simp add: export_empty_no_entries_client_def export_empty_client_def)
  have r1: "transcript_ready_at example_parse export_empty_client example_args
              (example_records ! 1) example_transcript ?s"
    unfolding export_empty_client_def by (rule example_transcript_ready)
  have fb1: "raw_entries_outcome export_empty_client example_args (example_records ! 1) example_transcript
              (Some ''https://docs.google.com/document/d/doc1/edit'') (?s @ [FilesExport ''doc1''])
     = Some (Found \<lparr>found_meeting_code = ''abc-defg-hij'', found_conference_id = ''first'',
                    found_start_time = Some (Aware 12), found_end_time = Some (Aware 15),
                    found_state = ''FILE_GENERATED'', found_doc_id = None,
                    found_doc_url = Some ''https://docs.google.com/document/d/doc1/edit'',
                    found_content = ''A: hi there'' @ [CHR 0x0A, CHR 0x0A] @ ''B: yo''\<rparr>,
             [GetCredentials, ListConferenceRecords (transcript_filter_str ''abc-defg-hij''),
              ListTranscripts ''conferenceRecords/first'', FilesExport ''doc1'',
              ListTranscriptEntries ''conferenceRecords/first/transcripts/t1'' None])"
    by code_simp
  have fb2: "raw_entries_outcome export_empty_no_entries_client example_args (example_records ! 1)
              example_transcript
              (Some ''https://docs.google.com/document/d/doc1/edit'') (?s @ [FilesExport ''doc1''])
     = Some (Failed ERROR_TRANSCRIPT_EMPTY [(''conference_id'', Some ''first'')],
             [GetCredentials, ListConferenceRecords (transcript_filter_str ''abc-defg-hij''),
              ListTranscripts ''conferenceRecords/first'', FilesExport ''doc1'',
              ListTranscriptEntries ''conferenceRecords/first/transcripts/t1'' None])"
    by code_simp
  note c1 = C10_empty_export_falls_back[of example_parse export_empty_client example_args
      "example_records ! 1" example_transcript ?s ?dd]
  note c2 = C10_empty_export_falls_back[of example_parse export_empty_no_entries_client example_args
      "example_records ! 1" example_transcript ?s ?dd]
  have a: "main example_parse export_empty_client example_args
            = raw_entries_outcome export_empty_client example_args (example_records ! 1) example_transcript
              (Some (doc_url_of (export_uri ?dd) (document ?dd))) (?s @ [FilesExport (document ?dd)])"
    using c1 r1 tr e1 by blast
  have b: "main example_parse export_empty_no_entries_client example_args
            = raw_entries_outcome export_empty_no_entries_client example_args (example_records ! 1)
              example_transcript
              (Some (doc_url_of (export_uri ?dd) (document ?dd))) (?s @ [FilesExport (document ?dd)])"
    using c2 export_empty_no_entries_ready tr e2 by blast
  have tn: "transcript_name example_transcript = ''conferenceRecords/first/transcripts/t1''"
    by (simp add: example_transcript_def)
  have "\<exists>calls sleeps. get_transcript_entries export_empty_no_entries_client (transcript_name example_transcript)
                 (?s @ [FilesExport ''doc1''])
           = Some (Returns [],
                   [GetCredentials, ListConferenceRecords (transcript_filter_str ''abc-defg-hij''),
                    ListTranscripts ''conferenceRecords/first'', FilesExport ''doc1'',
                    ListTranscriptEntries ''conferenceRecords/first/transcripts/t1'' None], calls, sleeps)"
    using c2 fb2 by blast
  moreover have g: "get_transcript_entries export_empty_no_entries_client ''conferenceRecords/first/transcripts/t1''
        [GetCredentials, ListConferenceRecords (transcript_filter_str ''abc-defg-hij''),
         ListTranscripts ''conferenceRecords/first'', FilesExport ''doc1'']
     = Some (Returns [],
             [GetCredentials, ListConferenceRecords (transcript_filter_str ''abc-defg-hij''),
              ListTranscripts ''conferenceRecords/first'', FilesExport ''doc1'',
              ListTranscriptEntries ''conferenceRecords/first/transcripts/t1'' None], 1, [])"
    by code_simp
  from a fb1 have a': "main example_parse export_empty_client example_args
     = Some (Found \<lparr>found_meeting_code = ''abc-defg-hij'', found_conference_id = ''first'',
                    found_start_time = Some (Aware 12), found_end_time = Some (Aware 15),
                    found_state = ''FILE_GENERATED'', found_doc_id = None,
                    found_doc_url = Some ''https://docs.google.com/document/d/doc1/edit'',
                    found_content = ''A: hi there'' @ [CHR 0x0A, CHR 0x0A] @ ''B: yo''\<rparr>,
             [GetCredentials, ListConferenceRecords (transcript_filter_str ''abc-defg-hij''),
              ListTranscripts ''conferenceRecords/first'', FilesExport ''doc1'',
              ListTranscriptEntries ''conferenceRecords/first/transcripts/t1'' None])"
    by (simp add: url)
  from b fb2 have b': "main example_parse export_empty_no_entries_client example_args
     = Some (Failed ''transcript_empty'' [(''conference_id'', Some ''first'')],
             [GetCredentials, ListConferenceRecords (transcript_filter_str ''abc-defg-hij''),
              ListTranscripts ''conferenceRecords/first'', FilesExport ''doc1'',
              ListTranscriptEntries ''conferenceRecords/first/transcripts/t1'' None])"
    by (simp add: url ERROR_TRANSCRIPT_EMPTY_def)
  from e1 a' b' g show ?thesis by simp
qed

end
